theory Spec2Isabelle
  imports Main "HOL-Library.Word" "HOL-Library.Char_ord" "HOL-Library.List_Lexorder"
begin

section \<open>The Dart bridge: data model\<close>

text \<open>
  The bridge (package \<open>bridge\<close>, files \<open>exports.go\<close> and \<open>QUICK_REFERENCE.go\<close>) exposes
  Go functions to a Dart client. Every exported function takes a port (\<open>C.longlong\<close>),
  does its work and answers through \<open>SendResponseToPort\<close> with a \<open>DartResponse\<close>.
  Go strings are byte sequences: they are modelled as \<open>string\<close>, a list of 8-bit
  characters. \<open>C.longlong\<close> and \<open>int64\<close> are 64-bit words; the conversion
  \<open>int64(port)\<close> is the identity on them.
\<close>

type_synonym int64 = "64 word"

text \<open>
  \<open>DartResponse\<close>, as declared in \<open>EXPORT_PATTERN.md\<close>:
  \<^verbatim>\<open>type DartResponse struct { Success bool; Message string; Data string }\<close>.
  A composite literal that leaves a field out gives it the zero value, the empty string.
\<close>

record DartResponse =
  Success :: bool
  Message :: string
  Data :: string

text \<open>
  \<open>ConfigGeneralSettings\<close> (\<open>exports.go\<close>, lines 43 to 52): eight optional fields, each
  a pointer that may be nil. A nil pointer is \<open>None\<close>. Go's \<open>int\<close> is taken at its
  64-bit width.
\<close>

record ConfigGeneralSettings =
  AllowLan :: "bool option"
  BindAddress :: "string option"
  LogLevel :: "string option"
  Port :: "int64 option"
  SocksPort :: "int64 option"
  MixedPort :: "int64 option"
  RedirPort :: "int64 option"
  TProxyPort :: "int64 option"

definition ptrBool :: "bool \<Rightarrow> bool option" where
  "ptrBool v = Some v"

definition ptrString :: "string \<Rightarrow> string option" where
  "ptrString v = Some v"

definition ptrInt :: "int64 \<Rightarrow> int64 option" where
  "ptrInt v = Some v"

text \<open>
  Go's \<open>error\<close> interface is a value with a method \<open>Error() string\<close>. The errors that
  reach the bridge come from \<open>encoding/json\<close>: \<open>Marshal\<close> rejects a value of a type
  that has no JSON form (\<open>UnsupportedTypeError\<close>); \<open>Unmarshal\<close> rejects input that is
  not JSON with a \<open>SyntaxError\<close> (a message and the offset it was met at, \<open>Error()\<close>
  being the message) and JSON that does not fit the target with an
  \<open>UnmarshalTypeError\<close> (the JSON value, the Go type, the offset, and the struct and
  field if the target is a struct field). \<open>DecodeError\<close> is any other error, with its
  text.
\<close>

datatype error =
  UnsupportedTypeError string
| DecodeError string
| SyntaxError string nat
| UnmarshalTypeError string string nat string string

fun Error :: "error \<Rightarrow> string" where
  "Error (UnsupportedTypeError t) = ''json: unsupported type: '' @ t"
| "Error (DecodeError msg) = msg"
| "Error (SyntaxError msg offset) = msg"
| "Error (UnmarshalTypeError val type offset struct field) =
     (if struct \<noteq> [] \<or> field \<noteq> [] then
        ''json: cannot unmarshal '' @ val @ '' into Go struct field '' @ struct @ ''.'' @ field
          @ '' of type '' @ type
      else ''json: cannot unmarshal '' @ val @ '' into Go value of type '' @ type)"

section \<open>The port response channel\<close>

text \<open>
  The state the bridge runs in: the messages posted so far, each with the port it was
  addressed to, oldest first, and the state of the engine behind the bridge, of which
  the bridge knows nothing.
\<close>

record 'e bridge =
  posted :: "(int64 \<times> DartResponse) list"
  engine :: 'e

text \<open>
  Modelled from the spec: \<open>SendResponseToPort\<close> is defined in \<open>lib.go\<close>, which is not
  among the sources. The spec (section 4.1) gives its contract: \<open>send(token, envelope)\<close>
  hands one message, the envelope, to the endpoint named by the token, with no
  acknowledgment and no retry. The model records the send.
\<close>

definition SendResponseToPort :: "int64 \<Rightarrow> DartResponse \<Rightarrow> 'e bridge \<Rightarrow> 'e bridge" where
  "SendResponseToPort port response st = st\<lparr>posted := posted st @ [(port, response)]\<rparr>"

section \<open>JSON encoding\<close>

text \<open>
  \<open>json.Marshal\<close> belongs to Go's standard library (\<open>encoding/json\<close>), not to the
  bridge. It walks the value it is given by reflection, so the model has a type of Go
  values, wide enough for what the bridge marshals (structs of optional scalars, maps
  from strings to scalars) and for a value \<open>Marshal\<close> refuses (a channel, a function).
  The encoder follows the library's: \<open>appendString\<close>, \<open>structEncoder\<close>,
  \<open>mapEncoder\<close>, \<open>ptrEncoder\<close>, \<open>isEmptyValue\<close>, and \<open>utf8.DecodeRuneInString\<close>,
  as of Go 1.22 (earlier releases write the backspace and the form feed as
  \<open>\u0008\<close> and \<open>\u000c\<close>, which decode to the same bytes).
\<close>

datatype gvalue =
  GBool bool
| GInt int
| GString string
| GNil
| GPtr gvalue
| GIface gvalue
| GStruct "(string \<times> bool \<times> gvalue) list"
| GMap "(string \<times> gvalue) list"
| GUnsupported string

text \<open>
  \<open>GNil\<close> is a nil pointer, interface or map; \<open>GPtr v\<close> and \<open>GIface v\<close> are a pointer
  to \<open>v\<close> and an interface holding \<open>v\<close>. A struct is the list of its exported fields in
  declaration order, each with its JSON name and whether its tag says \<open>omitempty\<close>. A
  map is the list of its entries, each key once. \<open>GUnsupported t\<close> is a value of a type
  \<open>t\<close> with no JSON form.
\<close>

subsection \<open>Strings\<close>

definition RuneError :: nat where
  "RuneError = 0xFFFD"

text \<open>
  \<open>utf8.DecodeRuneInString\<close>: the first rune of the string and its width in bytes;
  \<open>(RuneError, 1)\<close> for a byte that starts no valid encoding, \<open>(RuneError, 0)\<close> for the
  empty string. \<open>acceptRange\<close> is the range the second byte has to lie in, which depends
  on the first (the library's \<open>acceptRanges\<close> table); later bytes lie in 0x80 to 0xBF.
\<close>

definition acceptRange :: "nat \<Rightarrow> nat \<times> nat" where
  "acceptRange b0 =
     (if b0 = 0xE0 then (0xA0, 0xBF)
      else if b0 = 0xED then (0x80, 0x9F)
      else if b0 = 0xF0 then (0x90, 0xBF)
      else if b0 = 0xF4 then (0x80, 0x8F)
      else (0x80, 0xBF))"

definition DecodeRuneInString :: "string \<Rightarrow> nat \<times> nat" where
  "DecodeRuneInString s =
     (case s of
        [] \<Rightarrow> (RuneError, 0)
      | c0 # _ \<Rightarrow>
          let s0 = (of_char c0 :: nat) in
          if s0 < 0x80 then (s0, 1)
          else if s0 < 0xC2 \<or> 0xF4 < s0 then (RuneError, 1)
          else
            let sz = (if s0 < 0xE0 then 2 else if s0 < 0xF0 then 3 else (4::nat));
                (lo, hi) = acceptRange s0
            in
            if length s < sz then (RuneError, 1)
            else
              let s1 = (of_char (s ! 1) :: nat) in
              if s1 < lo \<or> hi < s1 then (RuneError, 1)
              else if sz \<le> 2 then ((s0 mod 32) * 64 + s1 mod 64, 2)
              else
                let s2 = (of_char (s ! 2) :: nat) in
                if s2 < 0x80 \<or> 0xBF < s2 then (RuneError, 1)
                else if sz \<le> 3 then ((s0 mod 16) * 4096 + (s1 mod 64) * 64 + s2 mod 64, 3)
                else
                  let s3 = (of_char (s ! 3) :: nat) in
                  if s3 < 0x80 \<or> 0xBF < s3 then (RuneError, 1)
                  else ((s0 mod 8) * 262144 + (s1 mod 64) * 4096 + (s2 mod 64) * 64
                          + s3 mod 64, 4))"

definition hex :: "nat \<Rightarrow> char" where
  "hex n = ''0123456789abcdef'' ! n"

text \<open>
  \<open>htmlSafeSet\<close>: the ASCII bytes \<open>Marshal\<close> copies as they are, which are those from
  0x20 on except the double quote, the backslash and the three characters
  \<open><\<close>, \<open>>\<close>, \<open>&\<close> that it escapes for HTML.
\<close>

definition htmlSafeSet :: "char \<Rightarrow> bool" where
  "htmlSafeSet b \<longleftrightarrow>
     0x20 \<le> (of_char b :: nat) \<and> (of_char b :: nat) < 0x80
     \<and> b \<noteq> CHR 0x22 \<and> b \<noteq> CHR 0x5C \<and> b \<noteq> CHR ''<'' \<and> b \<noteq> CHR ''>'' \<and> b \<noteq> CHR ''&''"

definition escapeByte :: "char \<Rightarrow> string" where
  "escapeByte b =
     (if b = CHR 0x5C \<or> b = CHR 0x22 then [CHR 0x5C, b]
      else if b = CHR 0x08 then [CHR 0x5C, CHR ''b'']
      else if b = CHR 0x0C then [CHR 0x5C, CHR ''f'']
      else if b = CHR 0x0A then [CHR 0x5C, CHR ''n'']
      else if b = CHR 0x0D then [CHR 0x5C, CHR ''r'']
      else if b = CHR 0x09 then [CHR 0x5C, CHR ''t'']
      else [CHR 0x5C, CHR ''u'', CHR ''0'', CHR ''0'',
            hex ((of_char b :: nat) div 16), hex ((of_char b :: nat) mod 16)])"

text \<open>
  The loop of \<open>appendString\<close> (with \<open>escapeHTML\<close> set, as \<open>Marshal\<close> sets it), on what
  is left of the string: an ASCII byte is copied or escaped; a byte that starts no valid
  UTF-8 encoding becomes the escape of U+FFFD; U+2028 and U+2029 are escaped; any other
  rune is copied with all its bytes.
\<close>

fun appendRunes :: "string \<Rightarrow> string" where
  "appendRunes [] = []"
| "appendRunes (b # bs) =
     (if (of_char b :: nat) < 0x80 then
        (if htmlSafeSet b then [b] else escapeByte b) @ appendRunes bs
      else
        (case DecodeRuneInString (b # bs) of (c, width) \<Rightarrow>
           if c = RuneError \<and> width = 1 then
             (CHR 0x5C # ''ufffd'') @ appendRunes bs
           else if c = 0x2028 \<or> c = 0x2029 then
             (CHR 0x5C # ''u202'') @ [hex (c mod 16)] @ appendRunes (drop (width - 1) bs)
           else
             (b # take (width - 1) bs) @ appendRunes (drop (width - 1) bs)))"

definition appendString :: "string \<Rightarrow> string" where
  "appendString src = [CHR 0x22] @ appendRunes src @ [CHR 0x22]"

subsection \<open>Integers\<close>

text \<open>\<open>strconv.FormatInt\<close> in base 10: the decimal digits, after a minus sign if negative.\<close>

fun digits :: "nat \<Rightarrow> string" where
  "digits n =
     (if n < 10 then [''0123456789'' ! n]
      else digits (n div 10) @ [''0123456789'' ! (n mod 10)])"

declare digits.simps [simp del]

definition FormatInt :: "int \<Rightarrow> string" where
  "FormatInt i = (if i < 0 then CHR ''-'' # digits (nat (- i)) else digits (nat i))"

subsection \<open>Values\<close>

fun isEmptyValue :: "gvalue \<Rightarrow> bool" where
  "isEmptyValue (GBool b) = (\<not> b)"
| "isEmptyValue (GInt i) = (i = 0)"
| "isEmptyValue (GString s) = (s = [])"
| "isEmptyValue GNil = True"
| "isEmptyValue (GMap kvs) = (kvs = [])"
| "isEmptyValue _ = False"

text \<open>
  \<open>structEncoder.encode\<close>, given each field's name, whether it is left out
  (\<open>omitempty\<close> and empty) and the encoding of its value: the fields that are not left
  out, separated by commas, the first error met aborting the whole. \<open>next\<close> is the byte
  written before the next field, \<open>{\<close> until a field has been written.
\<close>

fun structEncoder :: "char \<Rightarrow> (string \<times> bool \<times> (error + string)) list \<Rightarrow> error + string" where
  "structEncoder next [] = Inr (if next = CHR ''{'' then ''{}'' else ''}'')"
| "structEncoder next ((name, omitted, enc) # fs) =
     (if omitted then structEncoder next fs
      else
        (case enc of
           Inl err \<Rightarrow> Inl err
         | Inr s \<Rightarrow>
             (case structEncoder (CHR '','') fs of
                Inl err \<Rightarrow> Inl err
              | Inr rest \<Rightarrow> Inr ([next] @ appendString name @ '':'' @ s @ rest))))"

text \<open>
  \<open>mapEncoder.encode\<close>, given the entries sorted by key, each with the encoding of its
  value.
\<close>

fun mapEntries :: "bool \<Rightarrow> (string \<times> (error + string)) list \<Rightarrow> error + string" where
  "mapEntries first [] = Inr ''}''"
| "mapEntries first ((ks, enc) # kvs) =
     (case enc of
        Inl err \<Rightarrow> Inl err
      | Inr s \<Rightarrow>
          (case mapEntries False kvs of
             Inl err \<Rightarrow> Inl err
           | Inr rest \<Rightarrow>
               Inr ((if first then [] else '','') @ appendString ks @ '':'' @ s @ rest)))"

definition mapEncoder :: "(string \<times> (error + string)) list \<Rightarrow> error + string" where
  "mapEncoder kvs =
     (case mapEntries True (sort_key fst kvs) of
        Inl err \<Rightarrow> Inl err
      | Inr body \<Rightarrow> Inr (CHR ''{'' # body))"

fun encodeValue :: "gvalue \<Rightarrow> error + string" where
  "encodeValue (GBool b) = Inr (if b then ''true'' else ''false'')"
| "encodeValue (GInt i) = Inr (FormatInt i)"
| "encodeValue (GString s) = Inr (appendString s)"
| "encodeValue GNil = Inr ''null''"
| "encodeValue (GPtr v) = encodeValue v"
| "encodeValue (GIface v) = encodeValue v"
| "encodeValue (GStruct fs) =
     structEncoder (CHR ''{'')
       (map (\<lambda>(name, omitEmpty, fv). (name, omitEmpty \<and> isEmptyValue fv, encodeValue fv)) fs)"
| "encodeValue (GMap kvs) = mapEncoder (map (\<lambda>(ks, v). (ks, encodeValue v)) kvs)"
| "encodeValue (GUnsupported t) = Inl (UnsupportedTypeError t)"

definition json_Marshal :: "gvalue \<Rightarrow> error + string" where
  "json_Marshal v = encodeValue v"

section \<open>What the bridge marshals\<close>

text \<open>
  The reflection view of a \<open>ConfigGeneralSettings\<close>: its eight fields in declaration
  order, each tagged \<open>omitempty\<close>, each a pointer.
\<close>

definition ptrValue :: "('a \<Rightarrow> gvalue) \<Rightarrow> 'a option \<Rightarrow> gvalue" where
  "ptrValue f p = (case p of None \<Rightarrow> GNil | Some v \<Rightarrow> GPtr (f v))"

definition intValue :: "int64 \<Rightarrow> gvalue" where
  "intValue n = GInt (sint n)"

definition settingsValue :: "ConfigGeneralSettings \<Rightarrow> gvalue" where
  "settingsValue c = GStruct
     [(''allowLan'', True, ptrValue GBool (AllowLan c)),
      (''bindAddress'', True, ptrValue GString (BindAddress c)),
      (''logLevel'', True, ptrValue GString (LogLevel c)),
      (''port'', True, ptrValue intValue (Port c)),
      (''socksPort'', True, ptrValue intValue (SocksPort c)),
      (''mixedPort'', True, ptrValue intValue (MixedPort c)),
      (''redirPort'', True, ptrValue intValue (RedirPort c)),
      (''tproxyPort'', True, ptrValue intValue (TProxyPort c))]"

text \<open>The zero value \<open>ConfigGeneralSettings{}\<close>: every pointer nil.\<close>

definition zeroSettings :: ConfigGeneralSettings where
  "zeroSettings = \<lparr>AllowLan = None, BindAddress = None, LogLevel = None, Port = None,
     SocksPort = None, MixedPort = None, RedirPort = None, TProxyPort = None\<rparr>"

section \<open>The exported functions of exports.go\<close>

text \<open>
  \<open>json.Unmarshal\<close> is the library's too. The bridge uses nothing of it but whether it
  returns an error and, if so, the error's text, so each function that decodes takes
  the decoder for its target type as a parameter: \<open>unmarshal input\<close> is the error, or
  the decoded value. A \<open>map[string]interface{}\<close> target is the list of the entries
  decoded (none for a nil map).
\<close>

definition getGeneralConfig :: "int64 \<Rightarrow> 'e bridge \<Rightarrow> 'e bridge" where
  "getGeneralConfig port st =
     (let general = zeroSettings\<lparr>AllowLan := ptrBool True,
                                 BindAddress := ptrString ''0.0.0.0'',
                                 Port := ptrInt 8080\<rparr>
      in case json_Marshal (GPtr (settingsValue general)) of
           Inl err \<Rightarrow>
             SendResponseToPort port \<lparr>Success = False, Message = Error err, Data = []\<rparr> st
         | Inr data \<Rightarrow>
             SendResponseToPort port \<lparr>Success = True, Message = [], Data = data\<rparr> st)"

text \<open>
  In \<open>patchGeneralConfig\<close> the four tests on the decoded fields guard bodies that hold
  only comments, and in \<open>updateRemoteConfig\<close> the loop over the decoded map assigns its
  variables to the blank identifier: they are kept, with the state passing through
  them unchanged.
\<close>

definition patchGeneralConfig ::
    "(string \<Rightarrow> error + ConfigGeneralSettings) \<Rightarrow> int64 \<Rightarrow> string \<Rightarrow> 'e bridge \<Rightarrow> 'e bridge" where
  "patchGeneralConfig unmarshal port patch st =
     (case unmarshal patch of
        Inl err \<Rightarrow>
          SendResponseToPort port \<lparr>Success = False, Message = Error err, Data = []\<rparr> st
      | Inr general \<Rightarrow>
          let st1 = (if AllowLan general \<noteq> None then st else st);
              st2 = (if BindAddress general \<noteq> None then st1 else st1);
              st3 = (if Port general \<noteq> None then st2 else st2);
              st4 = (if LogLevel general \<noteq> None then st3 else st3)
          in SendResponseToPort port \<lparr>Success = True, Message = [], Data = []\<rparr> st4)"

definition getRemoteConfig :: "int64 \<Rightarrow> string \<Rightarrow> 'e bridge \<Rightarrow> 'e bridge" where
  "getRemoteConfig port name st =
     (let remoteConfig = GMap
            [(''name'', GIface (GString name)),
             (''type'', GIface (GString ''s3'')),
             (''url'', GIface (GString ''https://example.com''))]
      in case json_Marshal remoteConfig of
           Inl err \<Rightarrow>
             SendResponseToPort port \<lparr>Success = False, Message = Error err, Data = []\<rparr> st
         | Inr data \<Rightarrow>
             SendResponseToPort port \<lparr>Success = True, Message = [], Data = data\<rparr> st)"

definition updateRemoteConfig ::
    "(string \<Rightarrow> error + (string \<times> 'v) list) \<Rightarrow> int64 \<Rightarrow> string \<Rightarrow> string
       \<Rightarrow> 'e bridge \<Rightarrow> 'e bridge" where
  "updateRemoteConfig unmarshal port name data st =
     (case unmarshal data of
        Inl err \<Rightarrow>
          SendResponseToPort port \<lparr>Success = False, Message = Error err, Data = []\<rparr> st
      | Inr remoteConfig \<Rightarrow>
          let st1 = fold (\<lambda>(key, val) s. s) remoteConfig st
          in SendResponseToPort port \<lparr>Success = True, Message = [], Data = []\<rparr> st1)"

definition deleteRemote :: "int64 \<Rightarrow> string \<Rightarrow> 'e bridge \<Rightarrow> 'e bridge" where
  "deleteRemote port name st =
     SendResponseToPort port \<lparr>Success = True, Message = [], Data = []\<rparr> st"

section \<open>The templates of QUICK_REFERENCE.go\<close>

definition getSimpleData :: "int64 \<Rightarrow> 'e bridge \<Rightarrow> 'e bridge" where
  "getSimpleData port st =
     (let result = GMap
            [(''key'', GIface (GString ''value'')),
             (''count'', GIface (GInt 42))]
      in case json_Marshal result of
           Inl err \<Rightarrow>
             SendResponseToPort port \<lparr>Success = False, Message = Error err, Data = []\<rparr> st
         | Inr data \<Rightarrow>
             SendResponseToPort port \<lparr>Success = True, Message = [], Data = data\<rparr> st)"

definition updateSimpleData ::
    "(string \<Rightarrow> error + (string \<times> 'v) list) \<Rightarrow> int64 \<Rightarrow> string \<Rightarrow> 'e bridge \<Rightarrow> 'e bridge" where
  "updateSimpleData unmarshal port input st =
     (case unmarshal input of
        Inl err \<Rightarrow>
          SendResponseToPort port \<lparr>Success = False, Message = Error err, Data = []\<rparr> st
      | Inr config \<Rightarrow>
          let st1 = fold (\<lambda>(key, val) s. s) config st
          in SendResponseToPort port \<lparr>Success = True, Message = [], Data = []\<rparr> st1)"

definition getDataByName :: "int64 \<Rightarrow> string \<Rightarrow> 'e bridge \<Rightarrow> 'e bridge" where
  "getDataByName port nameStr st =
     (if nameStr = [] then
        SendResponseToPort port
          \<lparr>Success = False, Message = ''name parameter cannot be empty'', Data = []\<rparr> st
      else
        let result = GMap
              [(''name'', GIface (GString nameStr)),
               (''data'', GIface (GString (''result for '' @ nameStr)))]
        in case json_Marshal result of
             Inl err \<Rightarrow>
               SendResponseToPort port \<lparr>Success = False, Message = Error err, Data = []\<rparr> st
           | Inr data \<Rightarrow>
               SendResponseToPort port \<lparr>Success = True, Message = [], Data = data\<rparr> st)"

definition processData :: "int64 \<Rightarrow> string \<Rightarrow> string \<Rightarrow> 'e bridge \<Rightarrow> 'e bridge" where
  "processData port src dst st =
     (if src = [] \<or> dst = [] then
        SendResponseToPort port
          \<lparr>Success = False, Message = ''source and destination cannot be empty'', Data = []\<rparr> st
      else SendResponseToPort port \<lparr>Success = True, Message = [], Data = []\<rparr> st)"

definition deleteItem :: "int64 \<Rightarrow> string \<Rightarrow> 'e bridge \<Rightarrow> 'e bridge" where
  "deleteItem port itemID st =
     (if itemID = [] then
        SendResponseToPort port
          \<lparr>Success = False, Message = ''itemID cannot be empty'', Data = []\<rparr> st
      else SendResponseToPort port \<lparr>Success = True, Message = [], Data = []\<rparr> st)"

section \<open>Properties of an envelope\<close>

text \<open>
  The two fields \<open>message\<close> and \<open>data\<close> exclude each other: a successful envelope has
  no message, a failed one no data.
\<close>

definition exclusive :: "DartResponse \<Rightarrow> bool" where
  "exclusive r \<longleftrightarrow> (Success r \<longrightarrow> Message r = []) \<and> (\<not> Success r \<longrightarrow> Data r = [])"

section \<open>JSON decoding\<close>

text \<open>
  What the client does with \<open>data\<close>, and what \<open>patchGeneralConfig\<close> does with its
  argument: \<open>json.Unmarshal\<close> into a \<open>ConfigGeneralSettings\<close>. The model follows the
  library (\<open>unquote\<close>, \<open>getu4\<close>, \<open>utf8.EncodeRune\<close>, \<open>utf16.DecodeRune\<close>,
  \<open>utf8.ValidString\<close>, the storing of a literal into a pointer field) on the documents
  it covers: one object whose members are named by the JSON names of the struct's
  fields, as written in the tags, and hold a string, an integer, \<open>true\<close>, \<open>false\<close> or
  \<open>null\<close>, with any white space JSON allows. The result is \<open>None\<close> where
  \<open>Unmarshal\<close> returns an error, and for the documents beyond the model (a member
  under any other name, a nested object or array, a top-level \<open>null\<close>).
\<close>

subsection \<open>Strings\<close>

text \<open>\<open>utf8.ValidString\<close>: no byte of the string is decoded as \<open>(RuneError, 1)\<close>.\<close>

fun ValidString :: "string \<Rightarrow> bool" where
  "ValidString [] = True"
| "ValidString (b # bs) =
     (if (of_char b :: nat) < 0x80 then ValidString bs
      else
        (case DecodeRuneInString (b # bs) of (c, width) \<Rightarrow>
           \<not> (c = RuneError \<and> width = 1) \<and> ValidString (drop (width - 1) bs)))"

text \<open>
  \<open>utf8.EncodeRune\<close>: the UTF-8 encoding of a rune; of U+FFFD for a surrogate or a
  value beyond U+10FFFF.
\<close>

definition EncodeRune :: "nat \<Rightarrow> string" where
  "EncodeRune r =
     (if r \<le> 0x7F then [char_of r]
      else if r \<le> 0x7FF then [char_of (0xC0 + r div 64), char_of (0x80 + r mod 64)]
      else
        let r' = (if 0x10FFFF < r \<or> (0xD800 \<le> r \<and> r \<le> 0xDFFF) then RuneError else r) in
        if r' \<le> 0xFFFF then
          [char_of (0xE0 + r' div 4096), char_of (0x80 + r' div 64 mod 64),
           char_of (0x80 + r' mod 64)]
        else
          [char_of (0xF0 + r' div 262144), char_of (0x80 + r' div 4096 mod 64),
           char_of (0x80 + r' div 64 mod 64), char_of (0x80 + r' mod 64)])"

text \<open>
  \<open>getu4\<close>: the value of the four hexadecimal digits of an escape \<open>\uXXXX\<close> at the
  head of the string; \<open>None\<close> where the library returns \<open>-1\<close>.
\<close>

definition unhex :: "char \<Rightarrow> nat option" where
  "unhex c =
     (let n = (of_char c :: nat) in
      if 0x30 \<le> n \<and> n \<le> 0x39 then Some (n - 0x30)
      else if 0x61 \<le> n \<and> n \<le> 0x66 then Some (n - 0x61 + 10)
      else if 0x41 \<le> n \<and> n \<le> 0x46 then Some (n - 0x41 + 10)
      else None)"

fun getu4 :: "string \<Rightarrow> nat option" where
  "getu4 (c0 # c1 # h1 # h2 # h3 # h4 # _) =
     (if c0 \<noteq> CHR 0x5C \<or> c1 \<noteq> CHR ''u'' then None
      else
        (case (unhex h1, unhex h2, unhex h3, unhex h4) of
           (Some a, Some b, Some c, Some d) \<Rightarrow> Some (((a * 16 + b) * 16 + c) * 16 + d)
         | _ \<Rightarrow> None))"
| "getu4 _ = None"

text \<open>\<open>utf16.DecodeRune\<close>: the rune of a surrogate pair, U+FFFD if it is none.\<close>

definition utf16_DecodeRune :: "nat \<Rightarrow> nat \<Rightarrow> nat" where
  "utf16_DecodeRune r1 r2 =
     (if 0xD800 \<le> r1 \<and> r1 < 0xDC00 \<and> 0xDC00 \<le> r2 \<and> r2 < 0xE000
      then (r1 - 0xD800) * 1024 + (r2 - 0xDC00) + 0x10000
      else RuneError)"

text \<open>
  \<open>unquote\<close>, on what follows the opening quote: the decoded bytes up to the closing
  quote, and what follows it. A control character, an escape JSON does not have and a
  missing closing quote are errors. An escaped surrogate with no partner, and a byte that
  starts no valid UTF-8 encoding, decode to U+FFFD.
\<close>

fun unquote :: "string \<Rightarrow> (string \<times> string) option" where
  "unquote [] = None"
| "unquote (c # cs) =
     (if c = CHR 0x22 then Some ([], cs)
      else if c = CHR 0x5C then
        (case cs of
           [] \<Rightarrow> None
         | e # cs' \<Rightarrow>
             if e = CHR 0x22 \<or> e = CHR 0x5C \<or> e = CHR ''/'' then
               map_option (\<lambda>(t, rest). (e # t, rest)) (unquote cs')
             else if e = CHR ''b'' then map_option (\<lambda>(t, rest). (CHR 0x08 # t, rest)) (unquote cs')
             else if e = CHR ''f'' then map_option (\<lambda>(t, rest). (CHR 0x0C # t, rest)) (unquote cs')
             else if e = CHR ''n'' then map_option (\<lambda>(t, rest). (CHR 0x0A # t, rest)) (unquote cs')
             else if e = CHR ''r'' then map_option (\<lambda>(t, rest). (CHR 0x0D # t, rest)) (unquote cs')
             else if e = CHR ''t'' then map_option (\<lambda>(t, rest). (CHR 0x09 # t, rest)) (unquote cs')
             else if e = CHR ''u'' then
               (case getu4 (c # cs) of
                  None \<Rightarrow> None
                | Some rr \<Rightarrow>
                    if 0xD800 \<le> rr \<and> rr < 0xE000 then
                      (case getu4 (drop 4 cs') of
                         None \<Rightarrow>
                           map_option (\<lambda>(t, rest). (EncodeRune RuneError @ t, rest))
                             (unquote (drop 4 cs'))
                       | Some rr1 \<Rightarrow>
                           if utf16_DecodeRune rr rr1 \<noteq> RuneError then
                             map_option
                               (\<lambda>(t, rest). (EncodeRune (utf16_DecodeRune rr rr1) @ t, rest))
                               (unquote (drop 10 cs'))
                           else
                             map_option (\<lambda>(t, rest). (EncodeRune RuneError @ t, rest))
                               (unquote (drop 4 cs')))
                    else
                      map_option (\<lambda>(t, rest). (EncodeRune rr @ t, rest)) (unquote (drop 4 cs')))
             else None)
      else if (of_char c :: nat) < 0x20 then None
      else if (of_char c :: nat) < 0x80 then
        map_option (\<lambda>(t, rest). (c # t, rest)) (unquote cs)
      else
        (case DecodeRuneInString (c # cs) of (rr, width) \<Rightarrow>
           map_option (\<lambda>(t, rest). (EncodeRune rr @ t, rest)) (unquote (drop (width - 1) cs))))"


subsection \<open>Scalars\<close>

definition isSpace :: "char \<Rightarrow> bool" where
  "isSpace c \<longleftrightarrow> c = CHR '' '' \<or> c = CHR 0x09 \<or> c = CHR 0x0D \<or> c = CHR 0x0A"

definition skipSpace :: "string \<Rightarrow> string" where
  "skipSpace s = dropWhile isSpace s"

text \<open>
  A number literal stored into an \<open>int\<close>: \<open>strconv.ParseInt\<close> accepts it if it is an
  integer literal of JSON (no leading zero, no fraction, no exponent).
\<close>

definition isDigit :: "char \<Rightarrow> bool" where
  "isDigit c \<longleftrightarrow> 0x30 \<le> (of_char c :: nat) \<and> (of_char c :: nat) \<le> 0x39"

definition decimal :: "string \<Rightarrow> nat" where
  "decimal ds = foldl (\<lambda>a c. a * 10 + ((of_char c :: nat) - 0x30)) 0 ds"

definition parseInt :: "string \<Rightarrow> (int \<times> string) option" where
  "parseInt s =
     (let neg = (s \<noteq> [] \<and> hd s = CHR ''-'');
          s1 = (if neg then tl s else s);
          ds = takeWhile isDigit s1;
          rest = dropWhile isDigit s1
      in if ds = [] then None
         else if hd ds = CHR ''0'' \<and> 1 < length ds then None
         else if rest \<noteq> [] \<and> (hd rest = CHR ''.'' \<or> hd rest = CHR ''e'' \<or> hd rest = CHR ''E'')
           then None
         else Some (if neg then - int (decimal ds) else int (decimal ds), rest))"

datatype jscalar = JNull | JBool bool | JString string | JNumber int

definition parseScalar :: "string \<Rightarrow> (jscalar \<times> string) option" where
  "parseScalar s =
     (case s of
        [] \<Rightarrow> None
      | c # r \<Rightarrow>
          if c = CHR 0x22 then map_option (\<lambda>(t, rest). (JString t, rest)) (unquote r)
          else if take 4 s = ''true'' then Some (JBool True, drop 4 s)
          else if take 5 s = ''false'' then Some (JBool False, drop 5 s)
          else if take 4 s = ''null'' then Some (JNull, drop 4 s)
          else map_option (\<lambda>(n, rest). (JNumber n, rest)) (parseInt s))"

text \<open>
  Storing a literal into a pointer field: \<open>null\<close> sets the pointer to nil, a literal of
  the field's type sets it to a fresh value, any other literal is an error
  (\<open>UnmarshalTypeError\<close>), as is an integer that does not fit the field.
\<close>

definition storeBool :: "jscalar \<Rightarrow> bool option option" where
  "storeBool v = (case v of JNull \<Rightarrow> Some None | JBool b \<Rightarrow> Some (Some b) | _ \<Rightarrow> None)"

definition storeString :: "jscalar \<Rightarrow> string option option" where
  "storeString v = (case v of JNull \<Rightarrow> Some None | JString t \<Rightarrow> Some (Some t) | _ \<Rightarrow> None)"

definition storeInt :: "jscalar \<Rightarrow> int64 option option" where
  "storeInt v =
     (case v of
        JNull \<Rightarrow> Some None
      | JNumber n \<Rightarrow>
          if - 9223372036854775808 \<le> n \<and> n \<le> 9223372036854775807 then Some (Some (word_of_int n)) else None
      | _ \<Rightarrow> None)"

definition setField ::
    "string \<Rightarrow> jscalar \<Rightarrow> ConfigGeneralSettings \<Rightarrow> ConfigGeneralSettings option" where
  "setField key v c =
     (if key = ''allowLan'' then map_option (\<lambda>p. c\<lparr>AllowLan := p\<rparr>) (storeBool v)
      else if key = ''bindAddress'' then map_option (\<lambda>p. c\<lparr>BindAddress := p\<rparr>) (storeString v)
      else if key = ''logLevel'' then map_option (\<lambda>p. c\<lparr>LogLevel := p\<rparr>) (storeString v)
      else if key = ''port'' then map_option (\<lambda>p. c\<lparr>Port := p\<rparr>) (storeInt v)
      else if key = ''socksPort'' then map_option (\<lambda>p. c\<lparr>SocksPort := p\<rparr>) (storeInt v)
      else if key = ''mixedPort'' then map_option (\<lambda>p. c\<lparr>MixedPort := p\<rparr>) (storeInt v)
      else if key = ''redirPort'' then map_option (\<lambda>p. c\<lparr>RedirPort := p\<rparr>) (storeInt v)
      else if key = ''tproxyPort'' then map_option (\<lambda>p. c\<lparr>TProxyPort := p\<rparr>) (storeInt v)
      else None)"

subsection \<open>Objects\<close>

text \<open>
  One member: a quoted key, a colon, a scalar, stored into the field the key names. The
  result is the settings after the store and what follows the member, white space
  skipped.
\<close>

definition member ::
    "string \<Rightarrow> ConfigGeneralSettings \<Rightarrow> (ConfigGeneralSettings \<times> string) option" where
  "member s c =
     (case s of
        [] \<Rightarrow> None
      | q # r \<Rightarrow>
          if q \<noteq> CHR 0x22 then None
          else
            (case unquote r of
               None \<Rightarrow> None
             | Some (key, r1) \<Rightarrow>
                 (case skipSpace r1 of
                    [] \<Rightarrow> None
                  | colon # r2 \<Rightarrow>
                      if colon \<noteq> CHR '':'' then None
                      else
                        (case parseScalar (skipSpace r2) of
                           None \<Rightarrow> None
                         | Some (v, r3) \<Rightarrow>
                             (case setField key v c of
                                None \<Rightarrow> None
                              | Some c' \<Rightarrow> Some (c', skipSpace r3))))))"

text \<open>
  The members of an object, and what may follow one: a comma and the next member, or the
  closing brace, after which only white space may follow.
\<close>

function members :: "string \<Rightarrow> ConfigGeneralSettings \<Rightarrow> ConfigGeneralSettings option"
  and afterMember :: "string \<Rightarrow> ConfigGeneralSettings \<Rightarrow> ConfigGeneralSettings option" where
  "members s c =
     (case member s c of
        None \<Rightarrow> None
      | Some (c', r) \<Rightarrow> afterMember r c')"
| "afterMember r c =
     (case r of
        [] \<Rightarrow> None
      | sep # r' \<Rightarrow>
          if sep = CHR '','' then members (skipSpace r') c
          else if sep = CHR ''}'' then (if skipSpace r' = [] then Some c else None)
          else None)"
  by pat_completeness auto
termination
proof (relation "measure (\<lambda>x. case x of Inl (s, c) \<Rightarrow> length s | Inr (r, c) \<Rightarrow> length r)")
  show "wf (measure (\<lambda>x. case x of
      Inl (s, c :: ConfigGeneralSettings) \<Rightarrow> length s
    | Inr (r, c :: ConfigGeneralSettings) \<Rightarrow> length r))"
    by simp
next
  fix s :: string and c c' :: ConfigGeneralSettings and x r
  assume m: "member s c = Some x" and x: "(c', r) = x"
  have unquote_shorter: "length rest < length u" if "unquote u = Some (t, rest)" for u t rest
    using that
  proof (induction u arbitrary: t rest rule: length_induct)
    case (1 u)
    from "1.prems" obtain a v where u: "u = a # v"
      by (cases u) auto
    have IH: "length rest' < length u"
      if a: "unquote w = Some (t', rest')" and b: "length w \<le> length v" for w t' rest'
    proof -
      from b u have "length w < length u" by simp
      with "1.IH" a have "length rest' < length w" by blast
      with b u show ?thesis by simp
    qed
    show ?case
      using "1.prems" unfolding u unquote.simps
      by (auto split: if_splits list.splits option.splits prod.splits dest!: IH simp: u)
  qed
  have space_shorter: "length (skipSpace u) \<le> length u" for u
    by (simp add: skipSpace_def length_dropWhile_le)
  have int_shorter: "length rest \<le> length u" if "parseInt u = Some (n, rest)" for u n rest
  proof -
    have "length (dropWhile isDigit (tl u)) \<le> length u"
      by (rule order_trans [OF length_dropWhile_le]) simp
    with that show ?thesis
      by (auto simp: parseInt_def Let_def length_dropWhile_le split: if_splits)
  qed
  have scalar_shorter: "length rest \<le> length u" if "parseScalar u = Some (v, rest)" for u v rest
    using that
    by (auto simp: parseScalar_def split: list.splits if_splits
        dest!: unquote_shorter int_shorter)
  have "length r < length s"
  proof -
    from m x obtain q s' key r1 r2 v r3
      where s: "s = q # s'" and k: "unquote s' = Some (key, r1)"
        and c: "skipSpace r1 = CHR '':'' # r2"
        and v: "parseScalar (skipSpace r2) = Some (v, r3)" and r3: "r = skipSpace r3"
      by (auto simp: member_def split: list.splits if_splits option.splits)
    have "length r \<le> length r3" using r3 space_shorter by simp
    also have "\<dots> \<le> length (skipSpace r2)" using scalar_shorter [OF v] .
    also have "\<dots> \<le> length r2" by (rule space_shorter)
    also have "\<dots> < length (skipSpace r1)" using c by simp
    also have "\<dots> \<le> length r1" by (rule space_shorter)
    also have "\<dots> < length s'" using unquote_shorter [OF k] .
    finally show ?thesis using s by simp
  qed
  then show "(Inr (r, c'), Inl (s, c))
      \<in> measure (\<lambda>x. case x of Inl (s, c) \<Rightarrow> length s | Inr (r, c) \<Rightarrow> length r)"
    by simp
next
  fix r :: string and c :: ConfigGeneralSettings and sep r'
  assume "r = sep # r'"
  moreover have "length (skipSpace r') \<le> length r'"
    by (simp add: skipSpace_def length_dropWhile_le)
  ultimately show "(Inl (skipSpace r', c), Inr (r, c))
      \<in> measure (\<lambda>x. case x of Inl (s, c) \<Rightarrow> length s | Inr (r, c) \<Rightarrow> length r)"
    by simp
qed

text \<open>
  \<open>object\<close> decodes into the settings it is given, as \<open>Unmarshal\<close> does: a field the
  document does not name keeps its value. \<open>json_Unmarshal\<close> decodes into the zero
  value, as in \<open>general := &ConfigGeneralSettings{}\<close>.
\<close>

definition object :: "string \<Rightarrow> ConfigGeneralSettings \<Rightarrow> ConfigGeneralSettings option" where
  "object data c =
     (case skipSpace data of
        [] \<Rightarrow> None
      | open # r \<Rightarrow>
          if open \<noteq> CHR ''{'' then None
          else
            (case skipSpace r of
               [] \<Rightarrow> None
             | close # r' \<Rightarrow>
                 if close = CHR ''}'' then (if skipSpace r' = [] then Some c else None)
                 else members (skipSpace r) c))"

definition json_Unmarshal :: "string \<Rightarrow> ConfigGeneralSettings option" where
  "json_Unmarshal data = object data zeroSettings"


section \<open>JSON validation\<close>

text \<open>
  \<open>json.Unmarshal\<close> first runs \<open>checkValid\<close> over the whole input and returns its
  error, if any, before it decodes anything. \<open>checkValid\<close> is the scanner of
  \<open>encoding/json\<close> (\<open>scanner.go\<close>), a state machine fed one byte at a time; the
  model follows it state by state and keeps its messages. The scanner's \<open>step\<close> field, a
  function in Go, is the name of the state function here, and \<open>run\<close> calls it. The
  stack \<open>parseState\<close> has its top at the head of the list.
\<close>

datatype scanCode =
  scanContinue | scanBeginLiteral | scanBeginObject | scanObjectKey | scanObjectValue
| scanEndObject | scanBeginArray | scanArrayValue | scanEndArray | scanSkipSpace | scanEnd
| scanError

datatype parseState = parseObjectKey | parseObjectValue | parseArrayValue

datatype stepFn =
  StateBeginValueOrEmpty | StateBeginValue | StateBeginStringOrEmpty | StateBeginString
| StateEndValue | StateEndTop | StateInString | StateInStringEsc | StateInStringEscU
| StateInStringEscU1 | StateInStringEscU12 | StateInStringEscU123 | StateNeg | State1 | State0
| StateDot | StateDot0 | StateE | StateESign | StateE0 | StateT | StateTr | StateTru | StateF
| StateFa | StateFal | StateFals | StateN | StateNu | StateNul | StateError

record scanner =
  step :: stepFn
  endTop :: bool
  parseState :: "parseState list"
  err :: "error option"
  bytes :: nat

definition maxNestingDepth :: nat where
  "maxNestingDepth = 10000"

text \<open>
  \<open>quoteChar\<close> formats the offending byte for an error message: in single quotes, with
  \<open>strconv.Quote\<close>'s escapes for what \<open>strconv.IsPrint\<close> does not accept. The byte is
  taken as a rune, so a byte from 0x80 on appears in UTF-8 or as a \<open>\u00XX\<close> escape.
\<close>

definition IsPrint :: "nat \<Rightarrow> bool" where
  "IsPrint r \<longleftrightarrow> (0x20 \<le> r \<and> r \<le> 0x7E) \<or> (0xA1 \<le> r \<and> r \<le> 0xFF \<and> r \<noteq> 0xAD)"

definition quoteChar :: "char \<Rightarrow> string" where
  "quoteChar c =
     (let r = (of_char c :: nat) in
      if c = CHR 0x27 then [CHR 0x27, CHR 0x5C, CHR 0x27, CHR 0x27]
      else if c = CHR 0x22 then [CHR 0x27, CHR 0x22, CHR 0x27]
      else
        [CHR 0x27] @
        (if c = CHR 0x5C then [CHR 0x5C, CHR 0x5C]
         else if IsPrint r then EncodeRune r
         else if c = CHR 0x07 then [CHR 0x5C, CHR ''a'']
         else if c = CHR 0x08 then [CHR 0x5C, CHR ''b'']
         else if c = CHR 0x0C then [CHR 0x5C, CHR ''f'']
         else if c = CHR 0x0A then [CHR 0x5C, CHR ''n'']
         else if c = CHR 0x0D then [CHR 0x5C, CHR ''r'']
         else if c = CHR 0x09 then [CHR 0x5C, CHR ''t'']
         else if c = CHR 0x0B then [CHR 0x5C, CHR ''v'']
         else if r < 0x20 \<or> r = 0x7F then [CHR 0x5C, CHR ''x'', hex (r div 16), hex (r mod 16)]
         else [CHR 0x5C, CHR ''u'', CHR ''0'', CHR ''0'', hex (r div 16), hex (r mod 16)])
        @ [CHR 0x27])"

text \<open>\<open>scanner.error\<close>: records the error and moves to the state that only fails.\<close>

definition scanner_error :: "scanner \<Rightarrow> char \<Rightarrow> string \<Rightarrow> scanCode \<times> scanner" where
  "scanner_error s c context =
     (scanError,
      s\<lparr>step := StateError,
        err := Some (SyntaxError (''invalid character '' @ quoteChar c @ '' '' @ context)
                 (bytes s))\<rparr>)"

definition pushParseState ::
    "scanner \<Rightarrow> char \<Rightarrow> parseState \<Rightarrow> scanCode \<Rightarrow> scanCode \<times> scanner" where
  "pushParseState s c newParseState successState =
     (let s' = s\<lparr>parseState := newParseState # parseState s\<rparr>
      in if length (parseState s') \<le> maxNestingDepth then (successState, s')
         else scanner_error s' c ''exceeded max depth'')"

definition popParseState :: "scanner \<Rightarrow> scanner" where
  "popParseState s =
     (let st = tl (parseState s)
      in if st = [] then s\<lparr>parseState := st, step := StateEndTop, endTop := True\<rparr>
         else s\<lparr>parseState := st, step := StateEndValue\<rparr>)"

text \<open>
  The state functions. Each takes the scanner and the next byte and returns the scan code
  with the scanner as it leaves it. In \<open>stateBeginStringOrEmpty\<close> the stack is not
  empty, an object having just been opened.
\<close>

definition stateEndTop :: "scanner \<Rightarrow> char \<Rightarrow> scanCode \<times> scanner" where
  "stateEndTop s c =
     (if \<not> isSpace c then (scanEnd, snd (scanner_error s c ''after top-level value''))
      else (scanEnd, s))"

definition stateEndValue :: "scanner \<Rightarrow> char \<Rightarrow> scanCode \<times> scanner" where
  "stateEndValue s c =
     (case parseState s of
        [] \<Rightarrow> stateEndTop (s\<lparr>step := StateEndTop, endTop := True\<rparr>) c
      | ps # rest \<Rightarrow>
          if isSpace c then (scanSkipSpace, s\<lparr>step := StateEndValue\<rparr>)
          else
            (case ps of
               parseObjectKey \<Rightarrow>
                 if c = CHR '':'' then
                   (scanObjectKey, s\<lparr>parseState := parseObjectValue # rest, step := StateBeginValue\<rparr>)
                 else scanner_error s c ''after object key''
             | parseObjectValue \<Rightarrow>
                 if c = CHR '','' then
                   (scanObjectValue,
                    s\<lparr>parseState := parseObjectKey # rest, step := StateBeginString\<rparr>)
                 else if c = CHR ''}'' then (scanEndObject, popParseState s)
                 else scanner_error s c ''after object key:value pair''
             | parseArrayValue \<Rightarrow>
                 if c = CHR '','' then (scanArrayValue, s\<lparr>step := StateBeginValue\<rparr>)
                 else if c = CHR '']'' then (scanEndArray, popParseState s)
                 else scanner_error s c ''after array element''))"

definition stateBeginValue :: "scanner \<Rightarrow> char \<Rightarrow> scanCode \<times> scanner" where
  "stateBeginValue s c =
     (if isSpace c then (scanSkipSpace, s)
      else if c = CHR ''{'' then
        pushParseState (s\<lparr>step := StateBeginStringOrEmpty\<rparr>) c parseObjectKey scanBeginObject
      else if c = CHR ''['' then
        pushParseState (s\<lparr>step := StateBeginValueOrEmpty\<rparr>) c parseArrayValue scanBeginArray
      else if c = CHR 0x22 then (scanBeginLiteral, s\<lparr>step := StateInString\<rparr>)
      else if c = CHR ''-'' then (scanBeginLiteral, s\<lparr>step := StateNeg\<rparr>)
      else if c = CHR ''0'' then (scanBeginLiteral, s\<lparr>step := State0\<rparr>)
      else if c = CHR ''t'' then (scanBeginLiteral, s\<lparr>step := StateT\<rparr>)
      else if c = CHR ''f'' then (scanBeginLiteral, s\<lparr>step := StateF\<rparr>)
      else if c = CHR ''n'' then (scanBeginLiteral, s\<lparr>step := StateN\<rparr>)
      else if 0x31 \<le> (of_char c :: nat) \<and> (of_char c :: nat) \<le> 0x39 then
        (scanBeginLiteral, s\<lparr>step := State1\<rparr>)
      else scanner_error s c ''looking for beginning of value'')"

definition stateBeginValueOrEmpty :: "scanner \<Rightarrow> char \<Rightarrow> scanCode \<times> scanner" where
  "stateBeginValueOrEmpty s c =
     (if isSpace c then (scanSkipSpace, s)
      else if c = CHR '']'' then stateEndValue s c
      else stateBeginValue s c)"

definition stateBeginString :: "scanner \<Rightarrow> char \<Rightarrow> scanCode \<times> scanner" where
  "stateBeginString s c =
     (if isSpace c then (scanSkipSpace, s)
      else if c = CHR 0x22 then (scanBeginLiteral, s\<lparr>step := StateInString\<rparr>)
      else scanner_error s c ''looking for beginning of object key string'')"

definition stateBeginStringOrEmpty :: "scanner \<Rightarrow> char \<Rightarrow> scanCode \<times> scanner" where
  "stateBeginStringOrEmpty s c =
     (if isSpace c then (scanSkipSpace, s)
      else if c = CHR ''}'' then
        stateEndValue (s\<lparr>parseState := (parseState s)[0 := parseObjectValue]\<rparr>) c
      else stateBeginString s c)"

definition stateInString :: "scanner \<Rightarrow> char \<Rightarrow> scanCode \<times> scanner" where
  "stateInString s c =
     (if c = CHR 0x22 then (scanContinue, s\<lparr>step := StateEndValue\<rparr>)
      else if c = CHR 0x5C then (scanContinue, s\<lparr>step := StateInStringEsc\<rparr>)
      else if (of_char c :: nat) < 0x20 then scanner_error s c ''in string literal''
      else (scanContinue, s))"

definition stateInStringEsc :: "scanner \<Rightarrow> char \<Rightarrow> scanCode \<times> scanner" where
  "stateInStringEsc s c =
     (if c = CHR ''b'' \<or> c = CHR ''f'' \<or> c = CHR ''n'' \<or> c = CHR ''r'' \<or> c = CHR ''t''
         \<or> c = CHR 0x5C \<or> c = CHR ''/'' \<or> c = CHR 0x22 then
        (scanContinue, s\<lparr>step := StateInString\<rparr>)
      else if c = CHR ''u'' then (scanContinue, s\<lparr>step := StateInStringEscU\<rparr>)
      else scanner_error s c ''in string escape code'')"

definition isHexDigit :: "char \<Rightarrow> bool" where
  "isHexDigit c \<longleftrightarrow>
     (let n = (of_char c :: nat) in
      (0x30 \<le> n \<and> n \<le> 0x39) \<or> (0x61 \<le> n \<and> n \<le> 0x66) \<or> (0x41 \<le> n \<and> n \<le> 0x46))"

text \<open>
  The four states of a \<open>\u\<close> escape differ only in the state that follows, as do the
  states inside the literals \<open>true\<close>, \<open>false\<close> and \<open>null\<close>, which differ in the byte
  they expect, the state that follows and the message.
\<close>

definition stateInStringEscU :: "stepFn \<Rightarrow> scanner \<Rightarrow> char \<Rightarrow> scanCode \<times> scanner" where
  "stateInStringEscU next s c =
     (if isHexDigit c then (scanContinue, s\<lparr>step := next\<rparr>)
      else scanner_error s c (''in '' @ [CHR 0x5C] @ ''u hexadecimal character escape''))"

definition isDigit19 :: "char \<Rightarrow> bool" where
  "isDigit19 c \<longleftrightarrow> 0x31 \<le> (of_char c :: nat) \<and> (of_char c :: nat) \<le> 0x39"

definition stateNeg :: "scanner \<Rightarrow> char \<Rightarrow> scanCode \<times> scanner" where
  "stateNeg s c =
     (if c = CHR ''0'' then (scanContinue, s\<lparr>step := State0\<rparr>)
      else if isDigit19 c then (scanContinue, s\<lparr>step := State1\<rparr>)
      else scanner_error s c ''in numeric literal'')"

definition state0 :: "scanner \<Rightarrow> char \<Rightarrow> scanCode \<times> scanner" where
  "state0 s c =
     (if c = CHR ''.'' then (scanContinue, s\<lparr>step := StateDot\<rparr>)
      else if c = CHR ''e'' \<or> c = CHR ''E'' then (scanContinue, s\<lparr>step := StateE\<rparr>)
      else stateEndValue s c)"

definition state1 :: "scanner \<Rightarrow> char \<Rightarrow> scanCode \<times> scanner" where
  "state1 s c =
     (if isDigit c then (scanContinue, s\<lparr>step := State1\<rparr>)
      else state0 s c)"

definition stateDot :: "scanner \<Rightarrow> char \<Rightarrow> scanCode \<times> scanner" where
  "stateDot s c =
     (if isDigit c then (scanContinue, s\<lparr>step := StateDot0\<rparr>)
      else scanner_error s c ''after decimal point in numeric literal'')"

definition stateDot0 :: "scanner \<Rightarrow> char \<Rightarrow> scanCode \<times> scanner" where
  "stateDot0 s c =
     (if isDigit c then (scanContinue, s)
      else if c = CHR ''e'' \<or> c = CHR ''E'' then (scanContinue, s\<lparr>step := StateE\<rparr>)
      else stateEndValue s c)"

definition stateESign :: "scanner \<Rightarrow> char \<Rightarrow> scanCode \<times> scanner" where
  "stateESign s c =
     (if isDigit c then (scanContinue, s\<lparr>step := StateE0\<rparr>)
      else scanner_error s c ''in exponent of numeric literal'')"

definition stateE :: "scanner \<Rightarrow> char \<Rightarrow> scanCode \<times> scanner" where
  "stateE s c =
     (if c = CHR ''+'' \<or> c = CHR ''-'' then (scanContinue, s\<lparr>step := StateESign\<rparr>)
      else stateESign s c)"

definition stateE0 :: "scanner \<Rightarrow> char \<Rightarrow> scanCode \<times> scanner" where
  "stateE0 s c =
     (if isDigit c then (scanContinue, s)
      else stateEndValue s c)"

definition stateLiteral ::
    "char \<Rightarrow> stepFn \<Rightarrow> string \<Rightarrow> scanner \<Rightarrow> char \<Rightarrow> scanCode \<times> scanner" where
  "stateLiteral expected next context s c =
     (if c = expected then (scanContinue, s\<lparr>step := next\<rparr>)
      else scanner_error s c context)"

fun run :: "stepFn \<Rightarrow> scanner \<Rightarrow> char \<Rightarrow> scanCode \<times> scanner" where
  "run StateBeginValueOrEmpty = stateBeginValueOrEmpty"
| "run StateBeginValue = stateBeginValue"
| "run StateBeginStringOrEmpty = stateBeginStringOrEmpty"
| "run StateBeginString = stateBeginString"
| "run StateEndValue = stateEndValue"
| "run StateEndTop = stateEndTop"
| "run StateInString = stateInString"
| "run StateInStringEsc = stateInStringEsc"
| "run StateInStringEscU = stateInStringEscU StateInStringEscU1"
| "run StateInStringEscU1 = stateInStringEscU StateInStringEscU12"
| "run StateInStringEscU12 = stateInStringEscU StateInStringEscU123"
| "run StateInStringEscU123 = stateInStringEscU StateInString"
| "run StateNeg = stateNeg"
| "run State1 = state1"
| "run State0 = state0"
| "run StateDot = stateDot"
| "run StateDot0 = stateDot0"
| "run StateE = stateE"
| "run StateESign = stateESign"
| "run StateE0 = stateE0"
| "run StateT = stateLiteral (CHR ''r'') StateTr ''in literal true (expecting 'r')''"
| "run StateTr = stateLiteral (CHR ''u'') StateTru ''in literal true (expecting 'u')''"
| "run StateTru = stateLiteral (CHR ''e'') StateEndValue ''in literal true (expecting 'e')''"
| "run StateF = stateLiteral (CHR ''a'') StateFa ''in literal false (expecting 'a')''"
| "run StateFa = stateLiteral (CHR ''l'') StateFal ''in literal false (expecting 'l')''"
| "run StateFal = stateLiteral (CHR ''s'') StateFals ''in literal false (expecting 's')''"
| "run StateFals = stateLiteral (CHR ''e'') StateEndValue ''in literal false (expecting 'e')''"
| "run StateN = stateLiteral (CHR ''u'') StateNu ''in literal null (expecting 'u')''"
| "run StateNu = stateLiteral (CHR ''l'') StateNul ''in literal null (expecting 'l')''"
| "run StateNul = stateLiteral (CHR ''l'') StateEndValue ''in literal null (expecting 'l')''"
| "run StateError = (\<lambda>s c. (scanError, s))"

text \<open>
  \<open>eof\<close> tells the scanner the input has ended, by feeding it a space; \<open>checkValid\<close>
  feeds it every byte, counting them, and stops at the first error.
\<close>

definition reset :: scanner where
  "reset = \<lparr>step = StateBeginValue, endTop = False, parseState = [], err = None, bytes = 0\<rparr>"

definition eof :: "scanner \<Rightarrow> scanCode \<times> scanner" where
  "eof s =
     (if err s \<noteq> None then (scanError, s)
      else if endTop s then (scanEnd, s)
      else
        let s' = snd (run (step s) s (CHR '' ''))
        in if endTop s' then (scanEnd, s')
           else if err s' = None then
             (scanError, s'\<lparr>err := Some (SyntaxError ''unexpected end of JSON input'' (bytes s'))\<rparr>)
           else (scanError, s'))"

fun scanBytes :: "scanner \<Rightarrow> string \<Rightarrow> error option" where
  "scanBytes scan [] = (case eof scan of (code, scan') \<Rightarrow> if code = scanError then err scan' else None)"
| "scanBytes scan (c # cs) =
     (let scan1 = scan\<lparr>bytes := bytes scan + 1\<rparr>
      in case run (step scan1) scan1 c of (code, scan2) \<Rightarrow>
           if code = scanError then err scan2 else scanBytes scan2 cs)"

definition checkValid :: "string \<Rightarrow> error option" where
  "checkValid data = scanBytes reset data"


text \<open>
  A step leaves the scanner's error as it was or sets it to a \<open>SyntaxError\<close> whose
  message starts with \<open>invalid character\<close>.
\<close>

definition keepsErr :: "scanner \<Rightarrow> scanner \<Rightarrow> bool" where
  "keepsErr s s' \<longleftrightarrow>
     err s' = err s \<or> (\<exists>m n. err s' = Some (SyntaxError (''invalid character '' @ m) n))"

section \<open>Encoding and decoding, field by field\<close>

text \<open>Settings whose strings, where present, are valid UTF-8.\<close>

definition validSettings :: "ConfigGeneralSettings \<Rightarrow> bool" where
  "validSettings c \<longleftrightarrow>
     (\<forall>s. BindAddress c = Some s \<longrightarrow> ValidString s)
     \<and> (\<forall>s. LogLevel c = Some s \<longrightarrow> ValidString s)"

text \<open>
  A field as the struct encoder sees it (name, whether it is left out, the encoding of
  its value), together with what decoding it does to the settings. A field is
  \<open>decodable\<close> if, unless left out, its name is valid UTF-8 and its encoding, before
  a comma or a closing brace, is read back as a scalar that the decoder stores as the
  field says.
\<close>

definition decodable ::
    "string \<times> bool \<times> (error + string) \<times> (ConfigGeneralSettings \<Rightarrow> ConfigGeneralSettings) \<Rightarrow> bool"
  where
  "decodable f \<longleftrightarrow>
     (case f of (name, omitted, enc, upd) \<Rightarrow>
        \<not> omitted \<longrightarrow>
          ValidString name \<and>
          (\<exists>s v. enc = Inr s
             \<and> (\<forall>sep r. sep = CHR '','' \<or> sep = CHR ''}'' \<longrightarrow>
                   parseScalar (skipSpace (s @ sep # r)) = Some (v, sep # r))
             \<and> (\<forall>c. setField name v c = Some (upd c))))"

definition decoded ::
    "(string \<times> bool \<times> (error + string) \<times> (ConfigGeneralSettings \<Rightarrow> ConfigGeneralSettings)) list
      \<Rightarrow> ConfigGeneralSettings \<Rightarrow> ConfigGeneralSettings" where
  "decoded fs c = fold (\<lambda>(name, omitted, enc, upd) a. if omitted then a else upd a) fs c"

definition encoded ::
    "(string \<times> bool \<times> (error + string) \<times> (ConfigGeneralSettings \<Rightarrow> ConfigGeneralSettings)) list
      \<Rightarrow> (string \<times> bool \<times> (error + string)) list" where
  "encoded fs = map (\<lambda>(name, omitted, enc, upd). (name, omitted, enc)) fs"

text \<open>The eight fields of a \<open>ConfigGeneralSettings\<close>, in this form.\<close>

definition settingsFields ::
    "ConfigGeneralSettings \<Rightarrow>
       (string \<times> bool \<times> (error + string) \<times> (ConfigGeneralSettings \<Rightarrow> ConfigGeneralSettings)) list"
  where
  "settingsFields c =
     [(''allowLan'', AllowLan c = None, encodeValue (ptrValue GBool (AllowLan c)),
         \<lambda>a. a\<lparr>AllowLan := AllowLan c\<rparr>),
      (''bindAddress'', BindAddress c = None, encodeValue (ptrValue GString (BindAddress c)),
         \<lambda>a. a\<lparr>BindAddress := BindAddress c\<rparr>),
      (''logLevel'', LogLevel c = None, encodeValue (ptrValue GString (LogLevel c)),
         \<lambda>a. a\<lparr>LogLevel := LogLevel c\<rparr>),
      (''port'', Port c = None, encodeValue (ptrValue intValue (Port c)),
         \<lambda>a. a\<lparr>Port := Port c\<rparr>),
      (''socksPort'', SocksPort c = None, encodeValue (ptrValue intValue (SocksPort c)),
         \<lambda>a. a\<lparr>SocksPort := SocksPort c\<rparr>),
      (''mixedPort'', MixedPort c = None, encodeValue (ptrValue intValue (MixedPort c)),
         \<lambda>a. a\<lparr>MixedPort := MixedPort c\<rparr>),
      (''redirPort'', RedirPort c = None, encodeValue (ptrValue intValue (RedirPort c)),
         \<lambda>a. a\<lparr>RedirPort := RedirPort c\<rparr>),
      (''tproxyPort'', TProxyPort c = None, encodeValue (ptrValue intValue (TProxyPort c)),
         \<lambda>a. a\<lparr>TProxyPort := TProxyPort c\<rparr>)]"

section \<open>Every call sends once\<close>

lemma fold_blank: "fold (\<lambda>(key, val) s. s) xs st = st"
  by (induction xs) auto

lemma posted_Send: "posted (SendResponseToPort port r st) = posted st @ [(port, r)]"
  by (simp add: SendResponseToPort_def)

lemma engine_Send: "engine (SendResponseToPort port r st) = engine st"
  by (simp add: SendResponseToPort_def)

lemma sendI:
  "exclusive r \<Longrightarrow>
     \<exists>r'. SendResponseToPort port r st = SendResponseToPort port r' st \<and> exclusive r'"
  by blast

lemma exclusive_success: "exclusive \<lparr>Success = True, Message = [], Data = d\<rparr>"
  by (simp add: exclusive_def)

lemma exclusive_failure: "exclusive \<lparr>Success = False, Message = m, Data = []\<rparr>"
  by (simp add: exclusive_def)

lemmas exclusive_envelopes = exclusive_success exclusive_failure

lemma getGeneralConfig_sends:
  "\<exists>r. getGeneralConfig port st = SendResponseToPort port r st \<and> exclusive r"
  by (auto simp: getGeneralConfig_def Let_def exclusive_envelopes split: sum.split intro!: sendI)

lemma patchGeneralConfig_sends:
  "\<exists>r. patchGeneralConfig unmarshal port patch st = SendResponseToPort port r st \<and> exclusive r"
  by (auto simp: patchGeneralConfig_def Let_def exclusive_envelopes split: sum.split
      intro!: sendI)

lemma getRemoteConfig_sends:
  "\<exists>r. getRemoteConfig port name st = SendResponseToPort port r st \<and> exclusive r"
  by (auto simp: getRemoteConfig_def Let_def exclusive_envelopes split: sum.split intro!: sendI)

lemma updateRemoteConfig_sends:
  "\<exists>r. updateRemoteConfig unmarshal port name data st = SendResponseToPort port r st
       \<and> exclusive r"
  by (auto simp: updateRemoteConfig_def fold_blank exclusive_envelopes split: sum.split
      intro!: sendI)

lemma deleteRemote_sends:
  "\<exists>r. deleteRemote port name st = SendResponseToPort port r st \<and> exclusive r"
  by (auto simp: deleteRemote_def exclusive_envelopes intro!: sendI)

lemma getSimpleData_sends:
  "\<exists>r. getSimpleData port st = SendResponseToPort port r st \<and> exclusive r"
  by (auto simp: getSimpleData_def Let_def exclusive_envelopes split: sum.split intro!: sendI)

lemma updateSimpleData_sends:
  "\<exists>r. updateSimpleData unmarshal port input st = SendResponseToPort port r st \<and> exclusive r"
  by (auto simp: updateSimpleData_def fold_blank exclusive_envelopes split: sum.split
      intro!: sendI)

lemma getDataByName_sends:
  "\<exists>r. getDataByName port nameStr st = SendResponseToPort port r st \<and> exclusive r"
  by (auto simp: getDataByName_def Let_def exclusive_envelopes split: sum.split intro!: sendI)

lemma processData_sends:
  "\<exists>r. processData port src dst st = SendResponseToPort port r st \<and> exclusive r"
  by (auto simp: processData_def exclusive_envelopes intro!: sendI)

lemma deleteItem_sends:
  "\<exists>r. deleteItem port itemID st = SendResponseToPort port r st \<and> exclusive r"
  by (auto simp: deleteItem_def exclusive_envelopes intro!: sendI)

text \<open>
  Claim C1. Each of the five exported functions of \<open>exports.go\<close>, on every input (and
  with whatever the decoder answers), returns having sent exactly one envelope through
  \<open>SendResponseToPort\<close>, addressed to the port it was given: the state it leaves is the
  state it found after that one send, so the messages posted are those posted before
  and one more.
\<close>

theorem dispatch_sends_exactly_once:
  "(\<exists>r. getGeneralConfig port st = SendResponseToPort port r st
        \<and> posted (getGeneralConfig port st) = posted st @ [(port, r)])
   \<and> (\<exists>r. patchGeneralConfig unmarshalS port patch st = SendResponseToPort port r st
        \<and> posted (patchGeneralConfig unmarshalS port patch st) = posted st @ [(port, r)])
   \<and> (\<exists>r. getRemoteConfig port name st = SendResponseToPort port r st
        \<and> posted (getRemoteConfig port name st) = posted st @ [(port, r)])
   \<and> (\<exists>r. updateRemoteConfig unmarshalM port name data st = SendResponseToPort port r st
        \<and> posted (updateRemoteConfig unmarshalM port name data st) = posted st @ [(port, r)])
   \<and> (\<exists>r. deleteRemote port name st = SendResponseToPort port r st
        \<and> posted (deleteRemote port name st) = posted st @ [(port, r)])"
proof (intro conjI)
  show "\<exists>r. getGeneralConfig port st = SendResponseToPort port r st
        \<and> posted (getGeneralConfig port st) = posted st @ [(port, r)]"
    using getGeneralConfig_sends [of port st] by (auto simp: posted_Send)
  show "\<exists>r. patchGeneralConfig unmarshalS port patch st = SendResponseToPort port r st
        \<and> posted (patchGeneralConfig unmarshalS port patch st) = posted st @ [(port, r)]"
    using patchGeneralConfig_sends [of unmarshalS port patch st] by (auto simp: posted_Send)
  show "\<exists>r. getRemoteConfig port name st = SendResponseToPort port r st
        \<and> posted (getRemoteConfig port name st) = posted st @ [(port, r)]"
    using getRemoteConfig_sends [of port name st] by (auto simp: posted_Send)
  show "\<exists>r. updateRemoteConfig unmarshalM port name data st = SendResponseToPort port r st
        \<and> posted (updateRemoteConfig unmarshalM port name data st) = posted st @ [(port, r)]"
    using updateRemoteConfig_sends [of unmarshalM port name data st]
    by (auto simp: posted_Send)
  show "\<exists>r. deleteRemote port name st = SendResponseToPort port r st
        \<and> posted (deleteRemote port name st) = posted st @ [(port, r)]"
    using deleteRemote_sends [of port name st] by (auto simp: posted_Send)
qed

section \<open>deleteRemote\<close>

text \<open>
  Claim C10. For every name, the empty one included, \<open>deleteRemote\<close> of \<open>exports.go\<close>
  sends exactly one envelope, \<open>{success:true, message:"", data:""}\<close>: the name is not
  looked at, and the engine's state is the one the call found.
\<close>

theorem deleteRemote_always_succeeds:
  "posted (deleteRemote port name st)
     = posted st @ [(port, \<lparr>Success = True, Message = [], Data = []\<rparr>)]
   \<and> engine (deleteRemote port name st) = engine st"
  by (simp add: deleteRemote_def SendResponseToPort_def)

text \<open>
  Claim C2. The spec has \<open>deleteRemote(token=3, name="")\<close> answer
  \<open>{success:false, message:"itemID cannot be empty", data:""}\<close>. That is what the
  template \<open>deleteItem\<close> of \<open>QUICK_REFERENCE.go\<close> answers; \<open>deleteRemote\<close> of
  \<open>exports.go\<close> has no such test and answers success.
\<close>

theorem deleteRemote_empty_name:
  "posted (deleteRemote 3 [] st)
     = posted st @ [(3, \<lparr>Success = True, Message = [], Data = []\<rparr>)]
   \<and> posted (deleteItem 3 [] st)
     = posted st @ [(3, \<lparr>Success = False, Message = ''itemID cannot be empty'', Data = []\<rparr>)]"
  by (simp add: deleteRemote_def deleteItem_def SendResponseToPort_def)

section \<open>getGeneralConfig\<close>

lemma digits_8080: "digits 8080 = ''8080''"
  by (simp add: digits.simps)

lemma marshal_general:
  \<open>json_Marshal (GPtr (settingsValue (zeroSettings\<lparr>AllowLan := ptrBool True,
       BindAddress := ptrString ''0.0.0.0'', Port := ptrInt 8080\<rparr>)))
     = Inr ''{"allowLan":true,"bindAddress":"0.0.0.0","port":8080}''\<close>
  by (simp add: json_Marshal_def settingsValue_def zeroSettings_def ptrBool_def ptrString_def
      ptrInt_def ptrValue_def intValue_def FormatInt_def digits_8080 appendString_def
      htmlSafeSet_def)

text \<open>
  Claim C5. \<open>getGeneralConfig\<close>, with any token, sends the envelope with \<open>success\<close>
  true, an empty \<open>message\<close> and, as \<open>data\<close>, exactly
  \<^verbatim>\<open>{"allowLan":true,"bindAddress":"0.0.0.0","port":8080}\<close>: the three fields the
  function sets, in the order of their declaration, the five nil ones left out.
\<close>

theorem getGeneralConfig_envelope:
  \<open>posted (getGeneralConfig port st)
     = posted st @ [(port, \<lparr>Success = True, Message = [],
          Data = ''{"allowLan":true,"bindAddress":"0.0.0.0","port":8080}''\<rparr>)]\<close>
  by (simp add: getGeneralConfig_def marshal_general posted_Send)

lemma structEncoder_ok:
  "\<forall>(name, omitted, enc) \<in> set fs. omitted \<or> (\<exists>s. enc = Inr s)
     \<Longrightarrow> \<exists>s. structEncoder next fs = Inr s"
proof (induction fs arbitrary: "next")
  case Nil
  show ?case by simp
next
  case (Cons f fs)
  obtain name omitted enc where f: "f = (name, omitted, enc)" by (cases f)
  from Cons.prems
  have rest: "\<forall>(name, omitted, enc) \<in> set fs. omitted \<or> (\<exists>s. enc = Inr s)"
    by simp
  show ?case
  proof (cases omitted)
    case True
    with f Cons.IH [OF rest] show ?thesis by simp
  next
    case False
    with f Cons.prems obtain s where s: "enc = Inr s" by auto
    from Cons.IH [OF rest, of "CHR '',''"]
    obtain r where "structEncoder (CHR '','') fs = Inr r" ..
    with f False s show ?thesis by simp
  qed
qed

lemma encode_ptr_bool: "\<exists>s. encodeValue (ptrValue GBool p) = Inr s"
  by (cases p) (simp_all add: ptrValue_def)

lemma encode_ptr_string: "\<exists>s. encodeValue (ptrValue GString p) = Inr s"
  by (cases p) (simp_all add: ptrValue_def)

lemma encode_ptr_int: "\<exists>s. encodeValue (ptrValue intValue p) = Inr s"
  by (cases p) (simp_all add: ptrValue_def intValue_def)

lemma marshal_settings_ok: "\<exists>d. json_Marshal (GPtr (settingsValue c)) = Inr d"
  unfolding json_Marshal_def settingsValue_def encodeValue.simps
  by (rule structEncoder_ok) (simp add: encode_ptr_bool encode_ptr_string encode_ptr_int)

text \<open>
  Claim C9. The failure branch of \<open>getGeneralConfig\<close> is never taken: \<open>json.Marshal\<close>
  returns no error on a \<open>ConfigGeneralSettings\<close>, whatever its fields hold (a struct of
  pointers to booleans, strings and integers has no value that \<open>Marshal\<close> refuses,
  though \<open>Marshal\<close> does refuse other values), so with every token the envelope sent
  is a success envelope.
\<close>

theorem getGeneralConfig_never_fails:
  "(\<exists>d. json_Marshal (GPtr (settingsValue c)) = Inr d)
   \<and> (\<exists>t. json_Marshal (GUnsupported t) = Inl (UnsupportedTypeError t))
   \<and> (\<exists>d. posted (getGeneralConfig port st)
          = posted st @ [(port, \<lparr>Success = True, Message = [], Data = d\<rparr>)])"
proof (intro conjI)
  show "\<exists>d. json_Marshal (GPtr (settingsValue c)) = Inr d"
    by (rule marshal_settings_ok)
  show "\<exists>t. json_Marshal (GUnsupported t) = Inl (UnsupportedTypeError t)"
    by (simp add: json_Marshal_def)
  obtain d where "json_Marshal (GPtr (settingsValue (zeroSettings\<lparr>AllowLan := ptrBool True,
      BindAddress := ptrString ''0.0.0.0'', Port := ptrInt 8080\<rparr>))) = Inr d"
    using marshal_settings_ok by blast
  then show "\<exists>d. posted (getGeneralConfig port st)
      = posted st @ [(port, \<lparr>Success = True, Message = [], Data = d\<rparr>)]"
    by (simp add: getGeneralConfig_def posted_Send)
qed

section \<open>Empty string arguments\<close>

lemma appendString_remote:
  \<open>appendString ''name'' = ''"name"''\<close>
  \<open>appendString ''type'' = ''"type"''\<close>
  \<open>appendString ''url'' = ''"url"''\<close>
  \<open>appendString ''s3'' = ''"s3"''\<close>
  \<open>appendString ''https://example.com'' = ''"https://example.com"''\<close>
  \<open>appendString [] = ''""''\<close>
  by (simp_all add: appendString_def htmlSafeSet_def)

lemma templates_reject_empty:
  "getDataByName port [] st
     = SendResponseToPort port
         \<lparr>Success = False, Message = ''name parameter cannot be empty'', Data = []\<rparr> st"
  "src = [] \<or> dst = [] \<Longrightarrow> processData port src dst st
     = SendResponseToPort port
         \<lparr>Success = False, Message = ''source and destination cannot be empty'', Data = []\<rparr> st"
  "deleteItem port [] st
     = SendResponseToPort port
         \<lparr>Success = False, Message = ''itemID cannot be empty'', Data = []\<rparr> st"
  by (simp_all add: getDataByName_def processData_def deleteItem_def)

text \<open>
  Claim C3. The templates \<open>getDataByName\<close>, \<open>processData\<close> and \<open>deleteItem\<close> test
  their string arguments and answer an empty one with a failure envelope. The functions
  \<open>getRemoteConfig\<close> and \<open>deleteRemote\<close> of \<open>exports.go\<close> have no such test: with the
  empty name, \<open>getRemoteConfig\<close> answers success, the data being the configuration of
  a remote with the empty name.
\<close>

theorem getRemoteConfig_empty_name:
  \<open>posted (getRemoteConfig port [] st)
     = posted st @ [(port, \<lparr>Success = True, Message = [],
          Data = ''{"name":"","type":"s3","url":"https://example.com"}''\<rparr>)]\<close>
  by (simp add: getRemoteConfig_def posted_Send json_Marshal_def mapEncoder_def
      appendString_remote)

section \<open>The errors of the validation\<close>



lemma keepsErr_trans: "err s' = err s \<Longrightarrow> keepsErr s' s'' \<Longrightarrow> keepsErr s s''"
  by (simp add: keepsErr_def)



















lemma checkValid_general:
  \<open>checkValid ''{"allowLan":true,"bindAddress":"0.0.0.0","port":8080}'' = None\<close>
  by (simp add: checkValid_def reset_def eof_def stateBeginValue_def isSpace_def Let_def
      state1_def state0_def stateEndValue_def stateEndTop_def isDigit_def
      stateBeginStringOrEmpty_def stateBeginString_def stateInString_def stateLiteral_def
      pushParseState_def popParseState_def maxNestingDepth_def)

section \<open>Input that does not decode\<close>



text \<open>
  Claim C6. When the decoder rejects the argument, each of the three functions sends the
  failure envelope carrying the text of the decoder's error and returns: the state it
  leaves is the state it found but for that one message, so the engine's state is the
  same.
\<close>

theorem decode_failure_no_engine_work:
  "(unmarshalS patch = Inl e1 \<longrightarrow>
      patchGeneralConfig unmarshalS port patch st
        = st\<lparr>posted := posted st @ [(port, \<lparr>Success = False, Message = Error e1, Data = []\<rparr>)]\<rparr>
      \<and> engine (patchGeneralConfig unmarshalS port patch st) = engine st)
   \<and> (unmarshalM data = Inl e2 \<longrightarrow>
      updateRemoteConfig unmarshalM port name data st
        = st\<lparr>posted := posted st @ [(port, \<lparr>Success = False, Message = Error e2, Data = []\<rparr>)]\<rparr>
      \<and> engine (updateRemoteConfig unmarshalM port name data st) = engine st)
   \<and> (unmarshalM' input = Inl e3 \<longrightarrow>
      updateSimpleData unmarshalM' port input st
        = st\<lparr>posted := posted st @ [(port, \<lparr>Success = False, Message = Error e3, Data = []\<rparr>)]\<rparr>
      \<and> engine (updateSimpleData unmarshalM' port input st) = engine st)"
  by (simp add: patchGeneralConfig_def updateRemoteConfig_def updateSimpleData_def
      SendResponseToPort_def)

theorem decode_failure_no_engine_work_witness:
  "patchGeneralConfig (\<lambda>s. Inl (DecodeError ''unexpected end of JSON input'')) 7 []
       \<lparr>posted = [], engine = (5::nat)\<rparr>
     = \<lparr>posted = [(7, \<lparr>Success = False, Message = ''unexpected end of JSON input'',
                        Data = []\<rparr>)], engine = 5\<rparr>
   \<and> updateRemoteConfig
       (\<lambda>s. Inl (DecodeError ''unexpected end of JSON input'') :: error + (string \<times> unit) list)
       7 ''s3box'' [] \<lparr>posted = [], engine = (5::nat)\<rparr>
     = \<lparr>posted = [(7, \<lparr>Success = False, Message = ''unexpected end of JSON input'',
                        Data = []\<rparr>)], engine = 5\<rparr>
   \<and> updateSimpleData
       (\<lambda>s. Inl (DecodeError ''unexpected end of JSON input'') :: error + (string \<times> unit) list)
       7 [] \<lparr>posted = [], engine = (5::nat)\<rparr>
     = \<lparr>posted = [(7, \<lparr>Success = False, Message = ''unexpected end of JSON input'',
                        Data = []\<rparr>)], engine = 5\<rparr>"
  using decode_failure_no_engine_work
    [of "\<lambda>s. Inl (DecodeError ''unexpected end of JSON input'')" "[]"
        "DecodeError ''unexpected end of JSON input''" 7 "\<lparr>posted = [], engine = (5::nat)\<rparr>"
        "\<lambda>s. Inl (DecodeError ''unexpected end of JSON input'') :: error + (string \<times> unit) list"
        "[]" "DecodeError ''unexpected end of JSON input''" "''s3box''"
        "\<lambda>s. Inl (DecodeError ''unexpected end of JSON input'') :: error + (string \<times> unit) list"
        "[]" "DecodeError ''unexpected end of JSON input''"]
  by simp

section \<open>Message and data exclude each other\<close>

text \<open>
  Claim C8. Every envelope that any of the ten functions sends, on any input, has an
  empty \<open>message\<close> if \<open>success\<close> is true and an empty \<open>data\<close> if \<open>success\<close> is false.
\<close>

theorem envelope_exclusive:
  "(\<exists>r. posted (getGeneralConfig port st) = posted st @ [(port, r)] \<and> exclusive r)
   \<and> (\<exists>r. posted (patchGeneralConfig unmarshalS port patch st) = posted st @ [(port, r)]
        \<and> exclusive r)
   \<and> (\<exists>r. posted (getRemoteConfig port name st) = posted st @ [(port, r)] \<and> exclusive r)
   \<and> (\<exists>r. posted (updateRemoteConfig unmarshalM port name data st) = posted st @ [(port, r)]
        \<and> exclusive r)
   \<and> (\<exists>r. posted (deleteRemote port name st) = posted st @ [(port, r)] \<and> exclusive r)
   \<and> (\<exists>r. posted (getSimpleData port st) = posted st @ [(port, r)] \<and> exclusive r)
   \<and> (\<exists>r. posted (updateSimpleData unmarshalM port input st) = posted st @ [(port, r)]
        \<and> exclusive r)
   \<and> (\<exists>r. posted (getDataByName port name st) = posted st @ [(port, r)] \<and> exclusive r)
   \<and> (\<exists>r. posted (processData port src dst st) = posted st @ [(port, r)] \<and> exclusive r)
   \<and> (\<exists>r. posted (deleteItem port name st) = posted st @ [(port, r)] \<and> exclusive r)"
proof -
  have sent: "\<exists>r. posted st' = posted st @ [(port, r)] \<and> exclusive r"
    if "\<exists>r. st' = SendResponseToPort port r st \<and> exclusive r" for st' :: "'a bridge"
    using that by (auto simp: posted_Send)
  show ?thesis
    by (intro conjI sent getGeneralConfig_sends patchGeneralConfig_sends getRemoteConfig_sends
        updateRemoteConfig_sends deleteRemote_sends getSimpleData_sends updateSimpleData_sends
        getDataByName_sends processData_sends deleteItem_sends)
qed

theorem envelope_exclusive_witness:
  "(\<exists>r. posted (deleteRemote 3 [] \<lparr>posted = [], engine = ()\<rparr>) = [(3, r)]
        \<and> Success r \<and> Message r = [])
   \<and> (\<exists>r. posted (deleteItem 3 [] \<lparr>posted = [], engine = ()\<rparr>) = [(3, r)]
        \<and> \<not> Success r \<and> Data r = [])"
  using envelope_exclusive [of 3 "\<lparr>posted = [], engine = ()\<rparr>" "\<lambda>s. Inr zeroSettings" "[]" "[]"
      "\<lambda>s. Inr ([] :: (string \<times> unit) list)" "[]" "[]" "[]" "[]"]
  by (auto simp: exclusive_def deleteRemote_def deleteItem_def SendResponseToPort_def)

section \<open>Round trip of the general settings\<close>

subsection \<open>Integers\<close>

lemma digit_table: "n < 10 \<Longrightarrow> of_char (''0123456789'' ! n) = 48 + n"
proof -
  assume "n < 10"
  then consider "n = 0" | "n = 1" | "n = 2" | "n = 3" | "n = 4" | "n = 5" | "n = 6"
    | "n = 7" | "n = 8" | "n = 9"
    by atomize_elim arith
  then show ?thesis by cases simp_all
qed

lemma isDigit_table: "n < 10 \<Longrightarrow> isDigit (''0123456789'' ! n)"
  by (simp add: isDigit_def digit_table)

lemma digits_isDigit: "c \<in> set (digits n) \<Longrightarrow> isDigit c"
proof (induction n arbitrary: c rule: digits.induct)
  case (1 n)
  show ?case
  proof (cases "n < 10")
    case True
    with "1.prems" show ?thesis by (simp add: digits.simps [of n] isDigit_table)
  next
    case False
    with "1.prems" "1.IH" show ?thesis
      by (auto simp: digits.simps [of n] isDigit_table)
  qed
qed

lemma digits_nonempty: "digits n \<noteq> []"
  by (simp add: digits.simps [of n])

lemma decimal_snoc: "decimal (ds @ [c]) = decimal ds * 10 + (of_char c - 48)"
  by (simp add: decimal_def)

lemma decimal_digits: "decimal (digits n) = n"
proof (induction n rule: digits.induct)
  case (1 n)
  show ?case
  proof (cases "n < 10")
    case True
    then show ?thesis by (simp add: digits.simps [of n] decimal_def digit_table)
  next
    case False
    with "1.IH" show ?thesis
      by (simp add: digits.simps [of n] decimal_snoc digit_table)
  qed
qed

lemma digits_no_leading_zero: "0 < n \<Longrightarrow> hd (digits n) \<noteq> CHR ''0''"
proof (induction n rule: digits.induct)
  case (1 n)
  show ?case
  proof (cases "n < 10")
    case True
    with "1.prems" have "of_char (hd (digits n)) = 48 + n"
      by (simp add: digits.simps [of n] digit_table del: nth_Cons_pos)
    with "1.prems" show ?thesis by auto
  next
    case False
    with "1.IH" have "hd (digits (n div 10)) \<noteq> CHR ''0''" by simp
    with False show ?thesis by (simp add: digits.simps [of n] digits_nonempty)
  qed
qed

lemma digits_zero: "digits 0 = ''0''"
  by (simp add: digits.simps)

lemma digits_leading: "\<not> (hd (digits n) = CHR ''0'' \<and> 1 < length (digits n))"
  by (cases "n = 0") (simp_all add: digits_zero digits_no_leading_zero)

lemma takeWhile_digits:
  "\<not> isDigit sep \<Longrightarrow> takeWhile isDigit (digits n @ sep # r) = digits n"
  by (simp add: takeWhile_append2 digits_isDigit)

lemma dropWhile_digits:
  "\<not> isDigit sep \<Longrightarrow> dropWhile isDigit (digits n @ sep # r) = sep # r"
  by (simp add: dropWhile_append2 digits_isDigit)

lemma hd_digits_not_minus: "hd (digits n) \<noteq> CHR ''-''"
proof -
  have "hd (digits n) \<in> set (digits n)" by (simp add: digits_nonempty)
  then have "isDigit (hd (digits n))" by (rule digits_isDigit)
  then show ?thesis by (auto simp: isDigit_def)
qed

lemma parseInt_FormatInt:
  assumes "sep = CHR '','' \<or> sep = CHR ''}''"
  shows "parseInt (FormatInt i @ sep # r) = Some (i, sep # r)"
proof -
  from assms have sep: "\<not> isDigit sep" "sep \<noteq> CHR ''.''" "sep \<noteq> CHR ''e''" "sep \<noteq> CHR ''E''"
    by (auto simp: isDigit_def)
  show ?thesis
  proof (cases "i < 0")
    case True
    then show ?thesis
      using sep digits_leading [of "nat (- i)"]
      by (simp add: parseInt_def FormatInt_def takeWhile_digits dropWhile_digits
          digits_nonempty decimal_digits Let_def)
  next
    case False
    have "hd (digits (nat i) @ sep # r) \<noteq> CHR ''-''"
      using hd_digits_not_minus [of "nat i"] by (simp add: digits_nonempty)
    with False show ?thesis
      using sep digits_leading [of "nat i"]
      by (simp add: parseInt_def FormatInt_def takeWhile_digits dropWhile_digits
          digits_nonempty decimal_digits Let_def)
  qed
qed

lemma storeInt_sint: "storeInt (JNumber (sint (w :: int64))) = Some (Some w)"
proof -
  have "- (2 ^ 63) \<le> sint w" "sint w < 2 ^ 63"
    using sint_ge [of w] sint_lt [of w] by simp_all
  then show ?thesis by (simp add: storeInt_def)
qed

subsection \<open>Runes\<close>

lemma split_div_mod:
  fixes x y n :: nat
  assumes "y < n"
  shows "(x * n + y) div n = x" and "(x * n + y) mod n = y"
  using assms by simp_all

lemma rune2:
  fixes s0 s1 :: nat
  assumes "0xC2 \<le> s0" "s0 < 0xE0" "0x80 \<le> s1" "s1 \<le> 0xBF"
  defines "r \<equiv> (s0 mod 32) * 64 + s1 mod 64"
  shows "0x7F < r" "r \<le> 0x7FF" "0xC0 + r div 64 = s0" "0x80 + r mod 64 = s1"
proof -
  define a where "a = s0 - 0xC0"
  define b where "b = s1 - 0x80"
  have s0: "s0 = 6 * 32 + a" and a: "2 \<le> a" "a < 32"
    using assms(1,2) by (simp_all add: a_def)
  have s1: "s1 = 2 * 64 + b" and b: "b < 64"
    using assms(3,4) by (simp_all add: b_def)
  have m0: "s0 mod 32 = a" unfolding s0 using a(2) by (rule split_div_mod)
  have m1: "s1 mod 64 = b" unfolding s1 using b by (rule split_div_mod)
  have r: "r = a * 64 + b" by (simp add: r_def m0 m1)
  show "0x7F < r" "r \<le> 0x7FF" using a b by (simp_all add: r)
  have "r div 64 = a" unfolding r using b by (rule split_div_mod)
  then show "0xC0 + r div 64 = s0" by (simp add: s0)
  have "r mod 64 = b" unfolding r using b by (rule split_div_mod)
  then show "0x80 + r mod 64 = s1" by (simp add: s1)
qed

lemma rune3:
  fixes s0 s1 s2 :: nat
  assumes "0xE0 \<le> s0" "s0 < 0xF0" "0x80 \<le> s1" "s1 \<le> 0xBF" "0x80 \<le> s2" "s2 \<le> 0xBF"
    and lo: "s0 = 0xE0 \<longrightarrow> 0xA0 \<le> s1" and hi: "s0 = 0xED \<longrightarrow> s1 \<le> 0x9F"
  defines "r \<equiv> (s0 mod 16) * 4096 + (s1 mod 64) * 64 + s2 mod 64"
  shows "0x7FF < r" "r \<le> 0xFFFF" "\<not> (0xD800 \<le> r \<and> r \<le> 0xDFFF)"
    "0xE0 + r div 4096 = s0" "0x80 + r div 64 mod 64 = s1" "0x80 + r mod 64 = s2"
proof -
  define a where "a = s0 - 0xE0"
  define b where "b = s1 - 0x80"
  define d where "d = s2 - 0x80"
  have s0: "s0 = 14 * 16 + a" and a: "a < 16"
    using assms(1,2) by (simp_all add: a_def)
  have s1: "s1 = 2 * 64 + b" and b: "b < 64"
    using assms(3,4) by (simp_all add: b_def)
  have s2: "s2 = 2 * 64 + d" and d: "d < 64"
    using assms(5,6) by (simp_all add: d_def)
  have lo': "a = 0 \<longrightarrow> 32 \<le> b" using lo by (simp add: s0 s1)
  have hi': "a = 13 \<longrightarrow> b < 32" using hi by (auto simp: s0 s1)
  have m0: "s0 mod 16 = a" unfolding s0 using a by (rule split_div_mod)
  have m1: "s1 mod 64 = b" unfolding s1 using b by (rule split_div_mod)
  have m2: "s2 mod 64 = d" unfolding s2 using d by (rule split_div_mod)
  have r: "r = (a * 64 + b) * 64 + d" by (simp add: r_def m0 m1 m2)
  have r': "r = a * 4096 + (b * 64 + d)" by (simp add: r)
  show "0x7FF < r" using a b d lo' by (cases "a = 0") (simp_all add: r)
  show "r \<le> 0xFFFF" using a b d by (simp add: r)
  show "\<not> (0xD800 \<le> r \<and> r \<le> 0xDFFF)"
  proof -
    consider "a \<le> 12" | "a = 13" | "14 \<le> a" by linarith
    then show ?thesis
    proof cases
      case 1
      with b d show ?thesis by (simp add: r)
    next
      case 2
      with b d hi' show ?thesis by (simp add: r)
    next
      case 3
      with b d show ?thesis by (simp add: r)
    qed
  qed
  have "b * 64 + d < 4096" using b d by simp
  then have "r div 4096 = a" unfolding r' by (rule split_div_mod)
  then show "0xE0 + r div 4096 = s0" by (simp add: s0)
  have q: "r div 64 = a * 64 + b" unfolding r using d by (rule split_div_mod)
  have "(a * 64 + b) mod 64 = b" using b by (rule split_div_mod)
  then show "0x80 + r div 64 mod 64 = s1" by (simp add: q s1)
  have "r mod 64 = d" unfolding r using d by (rule split_div_mod)
  then show "0x80 + r mod 64 = s2" by (simp add: s2)
qed

lemma rune4:
  fixes s0 s1 s2 s3 :: nat
  assumes "0xF0 \<le> s0" "s0 \<le> 0xF4" "0x80 \<le> s1" "s1 \<le> 0xBF" "0x80 \<le> s2" "s2 \<le> 0xBF"
    "0x80 \<le> s3" "s3 \<le> 0xBF"
    and lo: "s0 = 0xF0 \<longrightarrow> 0x90 \<le> s1" and hi: "s0 = 0xF4 \<longrightarrow> s1 \<le> 0x8F"
  defines "r \<equiv> (s0 mod 8) * 262144 + (s1 mod 64) * 4096 + (s2 mod 64) * 64 + s3 mod 64"
  shows "0xFFFF < r" "r \<le> 0x10FFFF"
    "0xF0 + r div 262144 = s0" "0x80 + r div 4096 mod 64 = s1"
    "0x80 + r div 64 mod 64 = s2" "0x80 + r mod 64 = s3"
proof -
  define a where "a = s0 - 0xF0"
  define b where "b = s1 - 0x80"
  define d where "d = s2 - 0x80"
  define e where "e = s3 - 0x80"
  have s0: "s0 = 30 * 8 + a" and a: "a \<le> 4"
    using assms(1,2) by (simp_all add: a_def)
  have s1: "s1 = 2 * 64 + b" and b: "b < 64"
    using assms(3,4) by (simp_all add: b_def)
  have s2: "s2 = 2 * 64 + d" and d: "d < 64"
    using assms(5,6) by (simp_all add: d_def)
  have s3: "s3 = 2 * 64 + e" and e: "e < 64"
    using assms(7,8) by (simp_all add: e_def)
  have lo': "a = 0 \<longrightarrow> 16 \<le> b" using lo by (simp add: s0 s1)
  have hi': "a = 4 \<longrightarrow> b < 16" using hi by (auto simp: s0 s1)
  have a8: "a < 8" using a by simp
  have m0: "s0 mod 8 = a" unfolding s0 using a8 by (rule split_div_mod)
  have m1: "s1 mod 64 = b" unfolding s1 using b by (rule split_div_mod)
  have m2: "s2 mod 64 = d" unfolding s2 using d by (rule split_div_mod)
  have m3: "s3 mod 64 = e" unfolding s3 using e by (rule split_div_mod)
  have r: "r = ((a * 64 + b) * 64 + d) * 64 + e" by (simp add: r_def m0 m1 m2 m3)
  have r1: "r = (a * 64 + b) * 4096 + (d * 64 + e)" by (simp add: r)
  have r2: "r = a * 262144 + (b * 4096 + d * 64 + e)" by (simp add: r)
  show "0xFFFF < r" using a b d e lo' by (cases "a = 0") (simp_all add: r)
  show "r \<le> 0x10FFFF" using a b d e hi' by (cases "a = 4") (simp_all add: r)
  have "b * 4096 + d * 64 + e < 262144" using b d e by simp
  then have "r div 262144 = a" unfolding r2 by (rule split_div_mod)
  then show "0xF0 + r div 262144 = s0" by (simp add: s0)
  have "d * 64 + e < 4096" using d e by simp
  then have q1: "r div 4096 = a * 64 + b" unfolding r1 by (rule split_div_mod)
  have "(a * 64 + b) mod 64 = b" using b by (rule split_div_mod)
  then show "0x80 + r div 4096 mod 64 = s1" by (simp add: q1 s1)
  have q2: "r div 64 = (a * 64 + b) * 64 + d" unfolding r using e by (rule split_div_mod)
  have "((a * 64 + b) * 64 + d) mod 64 = d" using d by (rule split_div_mod)
  then show "0x80 + r div 64 mod 64 = s2" by (simp add: q2 s2)
  have "r mod 64 = e" unfolding r using e by (rule split_div_mod)
  then show "0x80 + r mod 64 = s3" by (simp add: s3)
qed

lemma Decode_short:
  assumes "\<not> (of_char c :: nat) < 0x80"
  shows "DecodeRuneInString [c] = (RuneError, 1)"
  using assms by (simp add: DecodeRuneInString_def Let_def acceptRange_def)

lemma Decode_bad:
  assumes "\<not> (of_char c :: nat) < 0x80" "(of_char c :: nat) < 0xC2 \<or> 0xF4 < (of_char c :: nat)"
  shows "DecodeRuneInString (c # cs) = (RuneError, 1)"
  using assms by (auto simp: DecodeRuneInString_def Let_def)

lemma Decode_two:
  assumes "0xC2 \<le> (of_char c :: nat)" "(of_char c :: nat) < 0xE0"
  shows "DecodeRuneInString (c # c1 # t) =
     (if (of_char c1 :: nat) < 0x80 \<or> 0xBF < (of_char c1 :: nat) then (RuneError, 1)
      else ((of_char c mod 32) * 64 + of_char c1 mod 64, 2))"
  using assms by (simp add: DecodeRuneInString_def Let_def acceptRange_def)

lemma Decode_three_short:
  assumes "0xE0 \<le> (of_char c :: nat)" "(of_char c :: nat) \<le> 0xF4"
  shows "DecodeRuneInString [c, c1] = (RuneError, 1)"
  using assms by (simp add: DecodeRuneInString_def Let_def acceptRange_def)

lemma Decode_three:
  assumes "0xE0 \<le> (of_char c :: nat)" "(of_char c :: nat) < 0xF0"
  shows "DecodeRuneInString (c # c1 # c2 # t) =
     (if (of_char c1 :: nat) < fst (acceptRange (of_char c))
           \<or> snd (acceptRange (of_char c)) < (of_char c1 :: nat) then (RuneError, 1)
      else if (of_char c2 :: nat) < 0x80 \<or> 0xBF < (of_char c2 :: nat) then (RuneError, 1)
      else ((of_char c mod 16) * 4096 + (of_char c1 mod 64) * 64 + of_char c2 mod 64, 3))"
  using assms by (simp add: DecodeRuneInString_def Let_def split_beta)

lemma Decode_four_short:
  assumes "0xF0 \<le> (of_char c :: nat)" "(of_char c :: nat) \<le> 0xF4"
  shows "DecodeRuneInString [c, c1, c2] = (RuneError, 1)"
  using assms by (simp add: DecodeRuneInString_def Let_def acceptRange_def)

lemma Decode_four:
  assumes "0xF0 \<le> (of_char c :: nat)" "(of_char c :: nat) \<le> 0xF4"
  shows "DecodeRuneInString (c # c1 # c2 # c3 # t) =
     (if (of_char c1 :: nat) < fst (acceptRange (of_char c))
           \<or> snd (acceptRange (of_char c)) < (of_char c1 :: nat) then (RuneError, 1)
      else if (of_char c2 :: nat) < 0x80 \<or> 0xBF < (of_char c2 :: nat) then (RuneError, 1)
      else if (of_char c3 :: nat) < 0x80 \<or> 0xBF < (of_char c3 :: nat) then (RuneError, 1)
      else ((of_char c mod 8) * 262144 + (of_char c1 mod 64) * 4096 + (of_char c2 mod 64) * 64
              + of_char c3 mod 64, 4))"
  using assms by (simp add: DecodeRuneInString_def Let_def split_beta)


lemma decode_encode:
  assumes d: "DecodeRuneInString (c # cs) = (rr, w)"
    and hi: "\<not> (of_char c :: nat) < 0x80"
    and ok: "\<not> (rr = RuneError \<and> w = 1)"
  shows "EncodeRune rr = c # take (w - 1) cs \<and> w - 1 \<le> length cs \<and> 1 < w
     \<and> (\<forall>t. DecodeRuneInString (c # take (w - 1) cs @ t) = (rr, w))"
proof -
  let ?s0 = "of_char c :: nat"
  have range: "0xC2 \<le> ?s0" "?s0 \<le> 0xF4"
    using d ok hi Decode_bad [of c cs] by force+
  consider (two) "?s0 < 0xE0" | (three) "0xE0 \<le> ?s0" "?s0 < 0xF0" | (four) "0xF0 \<le> ?s0"
    by linarith
  then show ?thesis
  proof cases
    case two
    from d ok obtain c1 t where cs: "cs = c1 # t"
      using Decode_short [OF hi] by (cases cs) auto
    let ?s1 = "of_char c1 :: nat"
    note D = Decode_two [OF range(1) two]
    from d ok have b1: "0x80 \<le> ?s1" "?s1 \<le> 0xBF"
      and rr: "rr = (?s0 mod 32) * 64 + ?s1 mod 64" and w: "w = 2"
      unfolding cs D by (auto split: if_splits)
    note f = rune2 [OF range(1) two b1, folded rr]
    have "EncodeRune rr = [c, c1]"
      using f by (simp add: EncodeRune_def)
    moreover have "DecodeRuneInString (c # c1 # u) = (rr, w)" for u
      using b1 by (simp add: D rr w)
    ultimately show ?thesis by (simp add: cs w)
  next
    case three
    from d ok obtain c1 c2 t where cs: "cs = c1 # c2 # t"
      using Decode_short [OF hi] Decode_three_short [OF three(1) range(2)]
      by (cases cs; cases "tl cs") auto
    let ?s1 = "of_char c1 :: nat" and ?s2 = "of_char c2 :: nat"
    note D = Decode_three [OF three]
    from d ok have a1: "fst (acceptRange ?s0) \<le> ?s1" "?s1 \<le> snd (acceptRange ?s0)"
      and b2: "0x80 \<le> ?s2" "?s2 \<le> 0xBF"
      and rr: "rr = (?s0 mod 16) * 4096 + (?s1 mod 64) * 64 + ?s2 mod 64" and w: "w = 3"
      unfolding cs D by (auto split: if_splits)
    from a1 three have b1: "0x80 \<le> ?s1" "?s1 \<le> 0xBF"
      and lo: "?s0 = 0xE0 \<longrightarrow> 0xA0 \<le> ?s1" and up: "?s0 = 0xED \<longrightarrow> ?s1 \<le> 0x9F"
      by (auto simp: acceptRange_def split: if_splits)
    note f = rune3 [OF three b1 b2 lo up, folded rr]
    have "EncodeRune rr = [c, c1, c2]"
      using f by (auto simp: EncodeRune_def)
    moreover have "DecodeRuneInString (c # c1 # c2 # u) = (rr, w)" for u
      using a1 b2 by (simp add: D rr w)
    ultimately show ?thesis by (simp add: cs w)
  next
    case four
    from d ok obtain c1 c2 c3 t where cs: "cs = c1 # c2 # c3 # t"
      using Decode_short [OF hi] Decode_three_short [of c] Decode_four_short [OF four range(2)]
        four range(2)
      by (cases cs; cases "tl cs"; cases "tl (tl cs)") auto
    let ?s1 = "of_char c1 :: nat" and ?s2 = "of_char c2 :: nat" and ?s3 = "of_char c3 :: nat"
    note D = Decode_four [OF four range(2)]
    from d ok have a1: "fst (acceptRange ?s0) \<le> ?s1" "?s1 \<le> snd (acceptRange ?s0)"
      and b2: "0x80 \<le> ?s2" "?s2 \<le> 0xBF" and b3: "0x80 \<le> ?s3" "?s3 \<le> 0xBF"
      and rr: "rr = (?s0 mod 8) * 262144 + (?s1 mod 64) * 4096 + (?s2 mod 64) * 64 + ?s3 mod 64"
      and w: "w = 4"
      unfolding cs D by (auto split: if_splits)
    from a1 four have b1: "0x80 \<le> ?s1" "?s1 \<le> 0xBF"
      and lo: "?s0 = 0xF0 \<longrightarrow> 0x90 \<le> ?s1" and up: "?s0 = 0xF4 \<longrightarrow> ?s1 \<le> 0x8F"
      by (auto simp: acceptRange_def split: if_splits)
    note f = rune4 [OF four range(2) b1 b2 b3 lo up, folded rr]
    have "EncodeRune rr = [c, c1, c2, c3]"
      using f by (auto simp: EncodeRune_def)
    moreover have "DecodeRuneInString (c # c1 # c2 # c3 # u) = (rr, w)" for u
      using a1 b2 b3 by (simp add: D rr w)
    ultimately show ?thesis by (simp add: cs w)
  qed
qed

subsection \<open>Strings\<close>

lemma unhex_hex: "n < 16 \<Longrightarrow> unhex (hex n) = Some n"
proof -
  assume "n < 16"
  then consider "n = 0" | "n = 1" | "n = 2" | "n = 3" | "n = 4" | "n = 5" | "n = 6"
    | "n = 7" | "n = 8" | "n = 9" | "n = 10" | "n = 11" | "n = 12" | "n = 13" | "n = 14"
    | "n = 15"
    by atomize_elim arith
  then show ?thesis by cases (simp_all add: hex_def unhex_def)
qed

lemma unhex_digits: "unhex (CHR ''0'') = Some 0" "unhex (CHR ''2'') = Some 2"
  by (simp_all add: unhex_def)

lemma unquote_escape_u00:
  assumes "(of_char b :: nat) < 0x80"
  shows "unquote ([CHR 0x5C, CHR ''u'', CHR ''0'', CHR ''0'',
            hex ((of_char b :: nat) div 16), hex ((of_char b :: nat) mod 16)] @ X)
         = map_option (\<lambda>(t, rest). (b # t, rest)) (unquote X)"
proof -
  have "(of_char b :: nat) div 16 < 16" using assms by simp
  then have h1: "unhex (hex ((of_char b :: nat) div 16)) = Some (of_char b div 16)"
    by (rule unhex_hex)
  have h2: "unhex (hex ((of_char b :: nat) mod 16)) = Some (of_char b mod 16)"
    by (rule unhex_hex) simp
  have "EncodeRune (of_char b) = [b]"
    using assms by (simp add: EncodeRune_def)
  then show ?thesis
    using assms by (simp add: unhex_digits h1 h2)
qed

lemma unquote_escapeByte:
  assumes "(of_char b :: nat) < 0x80" "\<not> htmlSafeSet b"
  shows "unquote (escapeByte b @ X) = map_option (\<lambda>(t, rest). (b # t, rest)) (unquote X)"
proof -
  consider "b = CHR 0x5C" | "b = CHR 0x22" | "b = CHR 0x08" | "b = CHR 0x0C" | "b = CHR 0x0A"
    | "b = CHR 0x0D" | "b = CHR 0x09"
    | "b \<noteq> CHR 0x5C" "b \<noteq> CHR 0x22" "b \<noteq> CHR 0x08" "b \<noteq> CHR 0x0C" "b \<noteq> CHR 0x0A"
      "b \<noteq> CHR 0x0D" "b \<noteq> CHR 0x09"
    by blast
  then show ?thesis
  proof cases
    case 8
    then have "escapeByte b = [CHR 0x5C, CHR ''u'', CHR ''0'', CHR ''0'',
            hex ((of_char b :: nat) div 16), hex ((of_char b :: nat) mod 16)]"
      by (simp add: escapeByte_def)
    then show ?thesis using unquote_escape_u00 [OF assms(1)] by simp
  qed (simp_all add: escapeByte_def)
qed

lemma unquote_safe:
  assumes "htmlSafeSet b"
  shows "unquote (b # X) = map_option (\<lambda>(t, rest). (b # t, rest)) (unquote X)"
  using assms by (simp add: htmlSafeSet_def)

lemma high_not_special:
  assumes "\<not> (of_char b :: nat) < 0x80"
  shows "b \<noteq> CHR 0x22" "b \<noteq> CHR 0x5C" "\<not> (of_char b :: nat) < 0x20"
  using assms by auto

lemma unquote_rune:
  assumes d: "DecodeRuneInString (b # bs) = (rr, w)"
    and hi: "\<not> (of_char b :: nat) < 0x80"
    and ok: "\<not> (rr = RuneError \<and> w = 1)"
  shows "unquote ((b # take (w - 1) bs) @ X)
     = map_option (\<lambda>(t, rest). ((b # take (w - 1) bs) @ t, rest)) (unquote X)"
proof -
  note f = decode_encode [OF d hi ok]
  from f obtain k where w: "w = Suc k" by (cases w) auto
  define pre where "pre = take k bs"
  from f have len: "length pre = k" by (simp add: pre_def w)
  from f have dec: "DecodeRuneInString (b # pre @ X) = (rr, Suc k)"
    by (simp add: pre_def w)
  from f have enc: "EncodeRune rr = b # pre" by (simp add: pre_def w)
  have "unquote ((b # pre) @ X) = map_option (\<lambda>(t, rest). ((b # pre) @ t, rest)) (unquote X)"
    using high_not_special [OF hi] hi len by (simp add: dec enc)
  then show ?thesis by (simp add: pre_def w)
qed

lemma unquote_u202x:
  assumes d: "DecodeRuneInString (b # bs) = (rr, w)"
    and hi: "\<not> (of_char b :: nat) < 0x80"
    and rr: "rr = 0x2028 \<or> rr = 0x2029"
  shows "unquote ((CHR 0x5C # ''u202'') @ [hex (rr mod 16)] @ X)
     = map_option (\<lambda>(t, rest). ((b # take (w - 1) bs) @ t, rest)) (unquote X)"
proof -
  from rr have ok: "\<not> (rr = RuneError \<and> w = 1)" by (auto simp: RuneError_def)
  note f = decode_encode [OF d hi ok]
  from f have enc: "EncodeRune rr = b # take (w - 1) bs" by blast
  from rr show ?thesis
  proof
    assume r: "rr = 0x2028"
    have g: "getu4 (CHR 0x5C # CHR ''u'' # CHR ''2'' # CHR ''0'' # CHR ''2'' # CHR ''8'' # X)
        = Some 0x2028"
      by (simp add: unhex_def)
    have h: "hex (0x2028 mod 16) = CHR ''8''" by (simp add: hex_def)
    show ?thesis
      using enc unfolding r h by (simp add: g del: getu4.simps)
  next
    assume r: "rr = 0x2029"
    have g: "getu4 (CHR 0x5C # CHR ''u'' # CHR ''2'' # CHR ''0'' # CHR ''2'' # CHR ''9'' # X)
        = Some 0x2029"
      by (simp add: unhex_def)
    have h: "hex (0x2029 mod 16) = CHR ''9''" by (simp add: hex_def)
    show ?thesis
      using enc unfolding r h by (simp add: g del: getu4.simps)
  qed
qed

lemma unquote_appendRunes:
  "ValidString s \<Longrightarrow> unquote (appendRunes s @ CHR 0x22 # rest) = Some (s, rest)"
proof (induction s rule: appendRunes.induct)
  case 1
  show ?case by simp
next
  case (2 b bs)
  show ?case
  proof (cases "(of_char b :: nat) < 0x80")
    case True
    with "2.prems" have "ValidString bs" by simp
    with "2.IH"(1) True have IH: "unquote (appendRunes bs @ CHR 0x22 # rest) = Some (bs, rest)"
      by simp
    show ?thesis
    proof (cases "htmlSafeSet b")
      case safe: True
      with True show ?thesis
        using unquote_safe [OF safe, of "appendRunes bs @ CHR 0x22 # rest"] IH by simp
    next
      case unsafe: False
      with True show ?thesis
        using unquote_escapeByte [OF True unsafe, of "appendRunes bs @ CHR 0x22 # rest"] IH
        by simp
    qed
  next
    case False
    obtain rr w where d: "DecodeRuneInString (b # bs) = (rr, w)"
      by (cases "DecodeRuneInString (b # bs)")
    from "2.prems" False d have ok: "\<not> (rr = RuneError \<and> w = 1)"
      and v: "ValidString (drop (w - 1) bs)"
      by simp_all
    note f = decode_encode [OF d False ok]
    let ?X = "appendRunes (drop (w - 1) bs) @ CHR 0x22 # rest"
    show ?thesis
    proof (cases "rr = 0x2028 \<or> rr = 0x2029")
      case True
      have IH: "unquote ?X = Some (drop (w - 1) bs, rest)"
        using "2.IH"(3) [OF False d [symmetric]] ok True v by simp
      have "appendRunes (b # bs) @ CHR 0x22 # rest
          = (CHR 0x5C # ''u202'') @ [hex (rr mod 16)] @ ?X"
        using False d ok True by simp
      then show ?thesis
        using unquote_u202x [OF d False True, of ?X] IH by simp
    next
      case other: False
      have IH: "unquote ?X = Some (drop (w - 1) bs, rest)"
        using "2.IH"(4) [OF False d [symmetric]] ok other v by simp
      have "appendRunes (b # bs) @ CHR 0x22 # rest = (b # take (w - 1) bs) @ ?X"
        using False d ok other by simp
      then show ?thesis
        using unquote_rune [OF d False ok, of ?X] IH by simp
    qed
  qed
qed

lemma unquote_appendString:
  "ValidString s \<Longrightarrow> parseScalar (appendString s @ rest) = Some (JString s, rest)"
  by (simp add: parseScalar_def appendString_def unquote_appendRunes)

subsection \<open>Objects\<close>

lemma skipSpace_Cons: "\<not> isSpace c \<Longrightarrow> skipSpace (c # s) = c # s"
  by (simp add: skipSpace_def)

lemma skipSpace_Nil: "skipSpace [] = []"
  by (simp add: skipSpace_def)

lemma not_space: "\<not> isSpace (CHR 0x22)" "\<not> isSpace (CHR '':'')" "\<not> isSpace (CHR '','')"
  "\<not> isSpace (CHR ''}'')" "\<not> isSpace (CHR ''{'')"
  by (simp_all add: isSpace_def)


lemma structEncoder_shape:
  "structEncoder (CHR '','') fs = Inr out \<Longrightarrow>
     \<exists>sep r. out = sep # r \<and> (sep = CHR '','' \<or> sep = CHR ''}'')"
proof (induction fs arbitrary: out)
  case Nil
  then show ?case by auto
next
  case (Cons f fs)
  obtain name omitted enc where f: "f = (name, omitted, enc)" by (cases f)
  show ?case
  proof (cases omitted)
    case True
    with Cons f show ?thesis by simp
  next
    case False
    with Cons.prems f show ?thesis by (auto split: sum.splits)
  qed
qed

lemma member_field:
  assumes name: "ValidString name"
    and val: "parseScalar (skipSpace (s @ sep # r)) = Some (v, sep # r)"
    and sep: "sep = CHR '','' \<or> sep = CHR ''}''"
    and set: "setField name v c = Some c'"
  shows "member (appendString name @ '':'' @ s @ sep # r) c = Some (c', sep # r)"
proof -
  have sp: "skipSpace (sep # r) = sep # r"
    using sep by (auto simp: skipSpace_Cons not_space)
  have "appendString name @ '':'' @ s @ sep # r
      = CHR 0x22 # appendRunes name @ CHR 0x22 # (CHR '':'' # s @ sep # r)"
    by (simp add: appendString_def)
  then show ?thesis
    using val set
    by (simp add: member_def unquote_appendRunes [OF name] skipSpace_Cons not_space sp)
qed

lemma afterMember_encoded:
  assumes "\<forall>f \<in> set fs. decodable f"
    and "structEncoder (CHR '','') (encoded fs) = Inr out"
  shows "afterMember out c = Some (decoded fs c)"
  using assms
proof (induction fs arbitrary: out c)
  case Nil
  then have "out = ''}''" by (simp add: encoded_def)
  then show ?case by (simp add: decoded_def skipSpace_Nil)
next
  case (Cons f fs)
  obtain name omitted enc upd where f: "f = (name, omitted, enc, upd)" by (cases f)
  from Cons.prems(1) have rest: "\<forall>f \<in> set fs. decodable f" by simp
  show ?case
  proof (cases omitted)
    case True
    with Cons.prems(2) f have "structEncoder (CHR '','') (encoded fs) = Inr out"
      by (simp add: encoded_def)
    from Cons.IH [OF rest this, of c] True f show ?thesis
      by (simp add: decoded_def)
  next
    case False
    from Cons.prems(1) have "decodable (name, omitted, enc, upd)" by (simp add: f)
    with False obtain s v where name: "ValidString name" and enc: "enc = Inr s"
      and val: "\<And>sep r. sep = CHR '','' \<or> sep = CHR ''}'' \<Longrightarrow>
                   parseScalar (skipSpace (s @ sep # r)) = Some (v, sep # r)"
      and set: "\<And>c. setField name v c = Some (upd c)"
      unfolding decodable_def by blast
    from Cons.prems(2) f False enc obtain tail
      where tail: "structEncoder (CHR '','') (encoded fs) = Inr tail"
        and out: "out = CHR '','' # appendString name @ '':'' @ s @ tail"
      by (auto simp: encoded_def split: sum.splits)
    from structEncoder_shape [OF tail] obtain sep r
      where t: "tail = sep # r" and sep: "sep = CHR '','' \<or> sep = CHR ''}''"
      by blast
    obtain body where b: "appendString name @ '':'' @ s @ tail = CHR 0x22 # body"
      by (simp add: appendString_def)
    have m: "member (CHR 0x22 # body) c = Some (upd c, tail)"
      unfolding b [symmetric] t by (rule member_field [OF name val [OF sep] sep set])
    have "afterMember out c = members (CHR 0x22 # body) c"
      unfolding out b by (simp add: skipSpace_Cons not_space del: members.simps)
    also have "\<dots> = afterMember tail (upd c)"
      by (simp add: m del: afterMember.simps)
    also have "\<dots> = Some (decoded fs (upd c))"
      by (rule Cons.IH [OF rest tail])
    finally show ?thesis using False f by (simp add: decoded_def)
  qed
qed

lemma object_encoded:
  assumes "\<forall>f \<in> set fs. decodable f"
    and "structEncoder (CHR ''{'') (encoded fs) = Inr out"
  shows "object out c = Some (decoded fs c)"
  using assms
proof (induction fs arbitrary: out c)
  case Nil
  then have "out = ''{}''" by (simp add: encoded_def)
  then show ?case
    by (simp add: decoded_def object_def skipSpace_Nil skipSpace_Cons not_space)
next
  case (Cons f fs)
  obtain name omitted enc upd where f: "f = (name, omitted, enc, upd)" by (cases f)
  from Cons.prems(1) have rest: "\<forall>f \<in> set fs. decodable f" by simp
  show ?case
  proof (cases omitted)
    case True
    with Cons.prems(2) f have "structEncoder (CHR ''{'') (encoded fs) = Inr out"
      by (simp add: encoded_def)
    from Cons.IH [OF rest this, of c] True f show ?thesis
      by (simp add: decoded_def)
  next
    case False
    from Cons.prems(1) have "decodable (name, omitted, enc, upd)" by (simp add: f)
    with False obtain s v where name: "ValidString name" and enc: "enc = Inr s"
      and val: "\<And>sep r. sep = CHR '','' \<or> sep = CHR ''}'' \<Longrightarrow>
                   parseScalar (skipSpace (s @ sep # r)) = Some (v, sep # r)"
      and set: "\<And>c. setField name v c = Some (upd c)"
      unfolding decodable_def by blast
    from Cons.prems(2) f False enc obtain tail
      where tail: "structEncoder (CHR '','') (encoded fs) = Inr tail"
        and out: "out = CHR ''{'' # appendString name @ '':'' @ s @ tail"
      by (auto simp: encoded_def split: sum.splits)
    from structEncoder_shape [OF tail] obtain sep r
      where t: "tail = sep # r" and sep: "sep = CHR '','' \<or> sep = CHR ''}''"
      by blast
    obtain body where b: "appendString name @ '':'' @ s @ tail = CHR 0x22 # body"
      by (simp add: appendString_def)
    have m: "member (CHR 0x22 # body) c = Some (upd c, tail)"
      unfolding b [symmetric] t by (rule member_field [OF name val [OF sep] sep set])
    have "object out c = members (CHR 0x22 # body) c"
      unfolding out b by (simp add: object_def skipSpace_Cons not_space del: members.simps)
    also have "\<dots> = afterMember tail (upd c)"
      by (simp add: m del: afterMember.simps)
    also have "\<dots> = Some (decoded fs (upd c))"
      by (rule afterMember_encoded [OF rest tail])
    finally show ?thesis using False f by (simp add: decoded_def)
  qed
qed

subsection \<open>The settings\<close>

lemma isEmptyValue_ptrValue: "isEmptyValue (ptrValue f p) \<longleftrightarrow> p = None"
  by (cases p) (simp_all add: ptrValue_def)

lemma parseScalar_bool:
  "parseScalar (skipSpace ((if b then ''true'' else ''false'') @ rest)) = Some (JBool b, rest)"
  by (simp add: parseScalar_def skipSpace_Cons isSpace_def)

lemma parseScalar_string:
  "ValidString s \<Longrightarrow> parseScalar (skipSpace (appendString s @ rest)) = Some (JString s, rest)"
proof -
  assume v: "ValidString s"
  have "skipSpace (appendString s @ rest) = appendString s @ rest"
    by (simp add: appendString_def skipSpace_Cons not_space)
  with unquote_appendString [OF v] show ?thesis by simp
qed

lemma FormatInt_head: "\<exists>c0 t. FormatInt i = c0 # t \<and> (c0 = CHR ''-'' \<or> isDigit c0)"
proof (cases "i < 0")
  case True
  then show ?thesis by (simp add: FormatInt_def)
next
  case False
  obtain c0 t where d: "digits (nat i) = c0 # t"
    using digits_nonempty [of "nat i"] by (cases "digits (nat i)") auto
  then have "c0 \<in> set (digits (nat i))" by simp
  then have "isDigit c0" by (rule digits_isDigit)
  with False d show ?thesis by (simp add: FormatInt_def)
qed

lemma parseScalar_int:
  assumes "sep = CHR '','' \<or> sep = CHR ''}''"
  shows "parseScalar (skipSpace (FormatInt i @ sep # r)) = Some (JNumber i, sep # r)"
proof -
  from FormatInt_head obtain c0 t where f: "FormatInt i = c0 # t"
    and c0: "c0 = CHR ''-'' \<or> isDigit c0"
    by blast
  from c0 have ns: "\<not> isSpace c0" and nq: "c0 \<noteq> CHR 0x22" and nt: "c0 \<noteq> CHR ''t''"
    and nf: "c0 \<noteq> CHR ''f''" and nn: "c0 \<noteq> CHR ''n''"
    by (auto simp: isSpace_def isDigit_def)
  have p: "parseInt (c0 # t @ sep # r) = Some (i, sep # r)"
    using parseInt_FormatInt [OF assms, of i r] by (simp add: f)
  show ?thesis
    using ns nq nt nf nn by (simp add: f skipSpace_Cons parseScalar_def p)
qed

lemma encodeValue_settings:
  "encodeValue (settingsValue c) = structEncoder (CHR ''{'') (encoded (settingsFields c))"
  by (simp add: settingsValue_def settingsFields_def encoded_def isEmptyValue_ptrValue)

lemma decodable_boolField:
  assumes "ValidString name"
    and "\<And>b a. setField name (JBool b) a = Some (upd (Some b) a)"
  shows "decodable (name, p = None, encodeValue (ptrValue GBool p), upd p)"
proof (cases p)
  case None
  then show ?thesis by (simp add: decodable_def)
next
  case (Some b)
  have "encodeValue (ptrValue GBool p) = Inr (if b then ''true'' else ''false'')"
    by (simp add: Some ptrValue_def)
  moreover have "parseScalar (skipSpace ((if b then ''true'' else ''false'') @ sep # r))
      = Some (JBool b, sep # r)" for sep r
    by (rule parseScalar_bool)
  ultimately show ?thesis
    unfolding decodable_def using assms Some by auto
qed

lemma decodable_stringField:
  assumes "ValidString name"
    and "\<And>s a. setField name (JString s) a = Some (upd (Some s) a)"
    and "\<And>s. p = Some s \<Longrightarrow> ValidString s"
  shows "decodable (name, p = None, encodeValue (ptrValue GString p), upd p)"
proof (cases p)
  case None
  then show ?thesis by (simp add: decodable_def)
next
  case (Some s)
  have "encodeValue (ptrValue GString p) = Inr (appendString s)"
    by (simp add: Some ptrValue_def)
  moreover have "parseScalar (skipSpace (appendString s @ sep # r)) = Some (JString s, sep # r)"
    for sep r
    by (rule parseScalar_string) (rule assms(3) [OF Some])
  ultimately show ?thesis
    unfolding decodable_def using assms(1,2) Some by auto
qed

lemma decodable_intField:
  assumes "ValidString name"
    and "\<And>v a. setField name v a = map_option (\<lambda>q. upd q a) (storeInt v)"
  shows "decodable (name, p = None, encodeValue (ptrValue intValue p), upd p)"
proof (cases p)
  case None
  then show ?thesis by (simp add: decodable_def)
next
  case (Some w)
  have "encodeValue (ptrValue intValue p) = Inr (FormatInt (sint w))"
    by (simp add: Some ptrValue_def intValue_def)
  moreover have "sep = CHR '','' \<or> sep = CHR ''}'' \<Longrightarrow>
      parseScalar (skipSpace (FormatInt (sint w) @ sep # r)) = Some (JNumber (sint w), sep # r)"
    for sep r
    by (rule parseScalar_int)
  moreover have "setField name (JNumber (sint w)) a = Some (upd (Some w) a)" for a
    by (simp add: assms(2) storeInt_sint)
  ultimately show ?thesis
    unfolding decodable_def using assms(1) Some by auto
qed

lemma decodable_settings:
  assumes "validSettings c"
  shows "\<forall>f \<in> set (settingsFields c). decodable f"
proof -
  have "decodable (''allowLan'', AllowLan c = None, encodeValue (ptrValue GBool (AllowLan c)),
      \<lambda>a. a\<lparr>AllowLan := AllowLan c\<rparr>)"
    using decodable_boolField [of "''allowLan''" "\<lambda>p a. a\<lparr>AllowLan := p\<rparr>" "AllowLan c"]
    by (simp add: setField_def storeBool_def)
  moreover have "decodable (''bindAddress'', BindAddress c = None,
      encodeValue (ptrValue GString (BindAddress c)), \<lambda>a. a\<lparr>BindAddress := BindAddress c\<rparr>)"
    using decodable_stringField [of "''bindAddress''" "\<lambda>p a. a\<lparr>BindAddress := p\<rparr>"
        "BindAddress c"] assms
    by (simp add: setField_def storeString_def validSettings_def)
  moreover have "decodable (''logLevel'', LogLevel c = None,
      encodeValue (ptrValue GString (LogLevel c)), \<lambda>a. a\<lparr>LogLevel := LogLevel c\<rparr>)"
    using decodable_stringField [of "''logLevel''" "\<lambda>p a. a\<lparr>LogLevel := p\<rparr>" "LogLevel c"]
      assms
    by (simp add: setField_def storeString_def validSettings_def)
  moreover have "decodable (''port'', Port c = None,
      encodeValue (ptrValue intValue (Port c)), \<lambda>a. a\<lparr>Port := Port c\<rparr>)"
    using decodable_intField [of "''port''" "\<lambda>p a. a\<lparr>Port := p\<rparr>" "Port c"]
    by (simp add: setField_def)
  moreover have "decodable (''socksPort'', SocksPort c = None,
      encodeValue (ptrValue intValue (SocksPort c)), \<lambda>a. a\<lparr>SocksPort := SocksPort c\<rparr>)"
    using decodable_intField [of "''socksPort''" "\<lambda>p a. a\<lparr>SocksPort := p\<rparr>" "SocksPort c"]
    by (simp add: setField_def)
  moreover have "decodable (''mixedPort'', MixedPort c = None,
      encodeValue (ptrValue intValue (MixedPort c)), \<lambda>a. a\<lparr>MixedPort := MixedPort c\<rparr>)"
    using decodable_intField [of "''mixedPort''" "\<lambda>p a. a\<lparr>MixedPort := p\<rparr>" "MixedPort c"]
    by (simp add: setField_def)
  moreover have "decodable (''redirPort'', RedirPort c = None,
      encodeValue (ptrValue intValue (RedirPort c)), \<lambda>a. a\<lparr>RedirPort := RedirPort c\<rparr>)"
    using decodable_intField [of "''redirPort''" "\<lambda>p a. a\<lparr>RedirPort := p\<rparr>" "RedirPort c"]
    by (simp add: setField_def)
  moreover have "decodable (''tproxyPort'', TProxyPort c = None,
      encodeValue (ptrValue intValue (TProxyPort c)), \<lambda>a. a\<lparr>TProxyPort := TProxyPort c\<rparr>)"
    using decodable_intField [of "''tproxyPort''" "\<lambda>p a. a\<lparr>TProxyPort := p\<rparr>"
        "TProxyPort c"]
    by (simp add: setField_def)
  ultimately show ?thesis by (simp add: settingsFields_def)
qed

lemma decoded_settings: "decoded (settingsFields c) zeroSettings = c"
  by (cases c) (simp add: decoded_def settingsFields_def zeroSettings_def)

text \<open>
  Claim C7, amended. For every \<open>ConfigGeneralSettings\<close> value whose string fields,
  where present, hold valid UTF-8, \<open>json.Marshal\<close> succeeds and decoding what it
  returns gives the value back: a nil field is left out by the encoder and is nil after
  decoding, a field that is set comes back as it was, the empty string, \<open>false\<close> and
  0 included.
\<close>

theorem settings_roundtrip:
  assumes "validSettings c"
  shows "\<exists>d. json_Marshal (GPtr (settingsValue c)) = Inr d \<and> json_Unmarshal d = Some c"
proof -
  obtain d where d: "json_Marshal (GPtr (settingsValue c)) = Inr d"
    using marshal_settings_ok by blast
  then have "structEncoder (CHR ''{'') (encoded (settingsFields c)) = Inr d"
    by (simp add: json_Marshal_def encodeValue_settings del: structEncoder.simps)
  from object_encoded [OF decodable_settings [OF assms] this, of zeroSettings]
  have "json_Unmarshal d = Some c"
    by (simp add: json_Unmarshal_def decoded_settings)
  with d show ?thesis by blast
qed

theorem settings_roundtrip_witness:
  \<open>validSettings (zeroSettings\<lparr>AllowLan := ptrBool True, BindAddress := ptrString ''0.0.0.0'',
       Port := ptrInt 8080\<rparr>)
   \<and> json_Unmarshal ''{"allowLan":true,"bindAddress":"0.0.0.0","port":8080}''
       = Some (zeroSettings\<lparr>AllowLan := ptrBool True, BindAddress := ptrString ''0.0.0.0'',
           Port := ptrInt 8080\<rparr>)\<close>
proof -
  let ?g = "zeroSettings\<lparr>AllowLan := ptrBool True, BindAddress := ptrString ''0.0.0.0'',
       Port := ptrInt 8080\<rparr>"
  have v: "validSettings ?g"
    by (simp add: validSettings_def zeroSettings_def ptrString_def)
  from settings_roundtrip [OF v] marshal_general v show ?thesis by auto
qed

subsection \<open>A string that is not valid UTF-8\<close>

lemma char_ofI: "of_char c = (n :: nat) \<Longrightarrow> char_of n = c"
  by auto

lemma EncodeRune_RuneError: "EncodeRune RuneError = [CHR 0xEF, CHR 0xBF, CHR 0xBD]"
proof -
  have "char_of (239 :: nat) = CHR 0xEF" "char_of (191 :: nat) = CHR 0xBF"
    "char_of (189 :: nat) = CHR 0xBD"
    by (rule char_ofI, simp)+
  then show ?thesis by (simp add: EncodeRune_def RuneError_def)
qed

lemma marshal_invalid:
  \<open>json_Marshal (GPtr (settingsValue (zeroSettings\<lparr>BindAddress := Some [CHR 0xFF]\<rparr>)))
     = Inr (''{"bindAddress":"'' @ CHR 0x5C # ''ufffd"}'')\<close>
  by (simp add: json_Marshal_def settingsValue_def zeroSettings_def ptrValue_def appendString_def
      htmlSafeSet_def DecodeRuneInString_def)

lemma unmarshal_replacement:
  \<open>json_Unmarshal (''{"bindAddress":"'' @ CHR 0x5C # ''ufffd"}'')
     = Some (zeroSettings\<lparr>BindAddress := Some [CHR 0xEF, CHR 0xBF, CHR 0xBD]\<rparr>)\<close>
  by (simp add: json_Unmarshal_def object_def skipSpace_def isSpace_def member_def unhex_def
      EncodeRune_RuneError [unfolded RuneError_def] parseScalar_def setField_def storeString_def)

text \<open>
  Claim C7 as stated fails. \<open>json.Marshal\<close> replaces a byte that starts no valid UTF-8
  encoding by the escape of U+FFFD, so a bind address that is the one byte 0xFF is
  encoded as \<^verbatim>\<open>{"bindAddress":"\ufffd"}\<close>, and this decodes to a bind address of
  the three bytes of U+FFFD, which is another value.
\<close>

theorem settings_roundtrip_counterexample:
  \<open>json_Marshal (GPtr (settingsValue (zeroSettings\<lparr>BindAddress := Some [CHR 0xFF]\<rparr>)))
     = Inr (''{"bindAddress":"'' @ CHR 0x5C # ''ufffd"}'')
   \<and> json_Unmarshal (''{"bindAddress":"'' @ CHR 0x5C # ''ufffd"}'')
     = Some (zeroSettings\<lparr>BindAddress := Some [CHR 0xEF, CHR 0xBF, CHR 0xBD]\<rparr>)
   \<and> json_Unmarshal (''{"bindAddress":"'' @ CHR 0x5C # ''ufffd"}'')
     \<noteq> Some (zeroSettings\<lparr>BindAddress := Some [CHR 0xFF]\<rparr>)\<close>
proof -
  have "zeroSettings\<lparr>BindAddress := Some [CHR 0xEF, CHR 0xBF, CHR 0xBD]\<rparr>
      \<noteq> zeroSettings\<lparr>BindAddress := Some [CHR 0xFF]\<rparr>"
    by (simp add: zeroSettings_def)
  with marshal_invalid unmarshal_replacement show ?thesis by simp
qed

end
